theory Spec2Isabelle
  imports Complex_Main "HOL-Library.Sublist" "HOL-Library.Word"
begin

section \<open>Thrown values\<close>

text \<open>
  A JavaScript value that reaches a \<^verbatim>\<open>catch\<close> clause. The functions of the repository
  only read the fields below: whether the value is an \<^verbatim>\<open>Error\<close> instance, its
  \<^verbatim>\<open>message\<close>, the numeric fields \<^verbatim>\<open>status\<close>, \<^verbatim>\<open>response.status\<close>,
  \<^verbatim>\<open>statusCode\<close> and \<^verbatim>\<open>code\<close>, the nested \<^verbatim>\<open>error.code\<close>, and what
  \<^verbatim>\<open>String(error)\<close> yields. Strings are lists of characters, one per code unit.
\<close>

record js_error =
  is_Error :: bool
  message :: string
  status :: "int option"
  response_status :: "int option"
  statusCode :: "int option"
  code :: "int option"
  error_code :: "string option"
  as_String :: string

definition new_Error :: "string \<Rightarrow> js_error" where
  "new_Error msg = \<lparr>is_Error = True, message = msg, status = None, response_status = None,
     statusCode = None, code = None, error_code = None, as_String = ''Error: '' @ msg\<rparr>"

section \<open>lib/utils/perceptual-hash.ts\<close>

text \<open>
  The module is the second part of \<^verbatim>\<open>src/lib/utils/__tests__/cn.test.ts\<close> (lines 53 to
  155).
\<close>

subsection \<open>hammingDistance\<close>

function hamming_loop :: "string \<Rightarrow> string \<Rightarrow> nat \<Rightarrow> nat \<Rightarrow> nat" where
  "hamming_loop hash1 hash2 i distance =
     (if i < length hash1
      then hamming_loop hash1 hash2 (Suc i)
             (if hash1 ! i \<noteq> hash2 ! i then Suc distance else distance)
      else distance)"
  by pat_completeness auto
termination
  by (relation "measure (\<lambda>(hash1, hash2, i, distance). length hash1 - i)") auto

declare hamming_loop.simps [simp del]

definition hammingDistance :: "string \<Rightarrow> string \<Rightarrow> js_error + nat" where
  "hammingDistance hash1 hash2 =
     (if length hash1 \<noteq> length hash2
      then Inl (new_Error ''Hashes must be of equal length'')
      else Inr (hamming_loop hash1 hash2 0 0))"

subsection \<open>generatePerceptualHash\<close>

subsubsection \<open>JavaScript numbers\<close>

text \<open>
  A JavaScript number is an IEEE 754 binary64 value. The model holds the real that a finite
  number denotes; \<^verbatim>\<open>NaN\<close> and the infinities are not values of the model. The operators
  \<^verbatim>\<open>/\<close> and \<^verbatim>\<open>*\<close> return the exact result rounded to the nearest binary64 value, a
  tie going to the even significand: \<open>fl\<close> below. \<open>binade x\<close> is the exponent \<open>e\<close> with
  \<open>2 ^ e \<le> \<bar>x\<bar> < 2 ^ (e + 1)\<close>, found by halving or doubling; the fuel covers every
  exponent a product or quotient of two such numbers can have. Below \<open>2 ^ - 1022\<close> the
  spacing stays that of the subnormal numbers. A result beyond the largest binary64 value is
  kept as it is, where the machine gives an infinity: the clamps that follow send both to the
  same bound.
\<close>

fun binade_loop :: "nat \<Rightarrow> real \<Rightarrow> int \<Rightarrow> int" where
  "binade_loop fuel m e =
     (if fuel = 0 then e
      else if 2 \<le> m then binade_loop (fuel - 1) (m / 2) (e + 1)
      else if m < 1 then binade_loop (fuel - 1) (m * 2) (e - 1)
      else e)"

declare binade_loop.simps [simp del]

definition binade :: "real \<Rightarrow> int" where
  "binade x = binade_loop 2100 \<bar>x\<bar> 0"

definition pow2 :: "int \<Rightarrow> real" where
  "pow2 k = (if 0 \<le> k then 2 ^ nat k else 1 / 2 ^ nat (- k))"

text \<open>The nearest integer, a tie going to the even one.\<close>

definition round_even :: "real \<Rightarrow> int" where
  "round_even v =
     (let f = \<lfloor>v\<rfloor>; d = v - of_int f
      in if d < 1 / 2 then f else if 1 / 2 < d then f + 1 else if even f then f else f + 1)"

definition fl :: "real \<Rightarrow> real" where
  "fl x = (if x = 0 then 0
           else let e = max (binade x) (- 1022); ulp = pow2 (e - 52)
                in of_int (round_even (x / ulp)) * ulp)"

text \<open>\<^verbatim>\<open>a / b\<close> and \<^verbatim>\<open>a * b\<close> on numbers.\<close>

definition Number_div :: "real \<Rightarrow> real \<Rightarrow> real" where
  "Number_div a b = fl (a / b)"

definition Number_mul :: "real \<Rightarrow> real \<Rightarrow> real" where
  "Number_mul a b = fl (a * b)"

subsubsection \<open>The function\<close>

text \<open>
  The bounding box of the source holds four numbers. The fields carry the prefix \<open>bb_\<close>
  because \<open>x\<close> and \<open>y\<close> cannot be constants.
\<close>

record bounding_box =
  bb_x :: real
  bb_y :: real
  bb_width :: real
  bb_height :: real

text \<open>The argument object of \<^verbatim>\<open>sharp.extract\<close>.\<close>

record extract_region =
  extract_left :: int
  extract_top :: int
  extract_width :: int
  extract_height :: int

text \<open>What \<^verbatim>\<open>sharp(buffer).metadata()\<close> reports; either dimension may be undefined.\<close>

record image_metadata =
  md_width :: "nat option"
  md_height :: "nat option"

record fetch_response =
  ok :: bool
  statusText :: string
  arrayBuffer :: "8 word list"

text \<open>
  The collaborators of the fingerprinter. \<open>None\<close> stands for a rejected promise or a
  thrown exception: \<open>fetch\<close> for a network failure, \<open>image_header\<close> for bytes that are not
  an image, \<open>sharp_raw\<close> for a failure anywhere in the chain
  \<^verbatim>\<open>extract\<close> (when a region is given), \<^verbatim>\<open>greyscale\<close>, \<^verbatim>\<open>resize(8, 8, {fit: 'fill'})\<close>,
  \<^verbatim>\<open>raw\<close>, \<^verbatim>\<open>toBuffer\<close>. \<open>image_header\<close> gives the dimensions that the file declares.
\<close>

record image_env =
  fetch :: "string \<Rightarrow> fetch_response option"
  image_header :: "8 word list \<Rightarrow> image_metadata option"
  sharp_raw :: "8 word list \<Rightarrow> extract_region option \<Rightarrow> 8 word list option"

text \<open>
  Modelled from the spec: \<^verbatim>\<open>sharp(buffer).metadata()\<close> belongs to the library
  \<^verbatim>\<open>sharp\<close>, whose code is not under \<^verbatim>\<open>src/\<close> (the tests replace it by a mock). The
  specification (4.1) has the operation fail when the bytes cannot be decoded and when the
  declared image has zero width or height; \<open>sharp_metadata\<close> therefore throws in these two
  cases and reports the declared dimensions otherwise.
\<close>

definition sharp_metadata :: "image_env \<Rightarrow> 8 word list \<Rightarrow> image_metadata option" where
  "sharp_metadata env buffer =
     (case image_header env buffer of
        None \<Rightarrow> None
      | Some declared \<Rightarrow>
          if md_width declared = Some 0 \<or> md_height declared = Some 0 then None
          else Some declared)"

text \<open>
  \<^verbatim>\<open>Math.round\<close>: the nearest integer, a tie going towards plus infinity. It is exact
  on every finite number.
\<close>

definition Math_round :: "real \<Rightarrow> int" where
  "Math_round v = \<lfloor>v + 1 / 2\<rfloor>"

text \<open>\<^verbatim>\<open>metadata.width || 1\<close>: an undefined or zero dimension becomes 1.\<close>

definition or_1 :: "nat option \<Rightarrow> nat" where
  "or_1 d = (case d of None \<Rightarrow> 1 | Some n \<Rightarrow> if n = 0 then 1 else n)"

text \<open>The body of \<^verbatim>\<open>if (boundingBox) { ... }\<close> up to the argument of \<^verbatim>\<open>extract\<close>.\<close>

definition crop_region :: "nat \<Rightarrow> nat \<Rightarrow> bounding_box \<Rightarrow> extract_region" where
  "crop_region imageWidth imageHeight boundingBox =
     (let left = Math_round (Number_mul (Number_div (bb_x boundingBox) 100) (real imageWidth));
          top = Math_round (Number_mul (Number_div (bb_y boundingBox) 100) (real imageHeight));
          width = Math_round (Number_mul (Number_div (bb_width boundingBox) 100) (real imageWidth));
          height =
            Math_round (Number_mul (Number_div (bb_height boundingBox) 100) (real imageHeight));
          safeLeft = max 0 (min left (int imageWidth - 1));
          safeTop = max 0 (min top (int imageHeight - 1));
          safeWidth = max 1 (min width (int imageWidth - safeLeft));
          safeHeight = max 1 (min height (int imageHeight - safeTop))
      in \<lparr>extract_left = safeLeft, extract_top = safeTop,
          extract_width = safeWidth, extract_height = safeHeight\<rparr>)"

text \<open>
  The two loops over the raw pixels: the average \<^verbatim>\<open>sum / processed.length\<close>, and
  one character per pixel. With an empty buffer no character is produced and the average
  is never compared.
\<close>

fun sum_loop :: "8 word list \<Rightarrow> nat \<Rightarrow> nat" where
  "sum_loop [] acc = acc"
| "sum_loop (p # ps) acc = sum_loop ps (acc + unat p)"

fun hash_loop :: "8 word list \<Rightarrow> real \<Rightarrow> string \<Rightarrow> string" where
  "hash_loop [] avg hash = hash"
| "hash_loop (p # ps) avg hash =
     hash_loop ps avg (hash @ (if real (unat p) > avg then ''1'' else ''0''))"

definition hash_of_pixels :: "8 word list \<Rightarrow> string" where
  "hash_of_pixels processed =
     (let pixel_sum = sum_loop processed 0;
          avg = Number_div (real pixel_sum) (real (length processed))
      in hash_loop processed avg [])"

text \<open>
  Every failure inside the \<^verbatim>\<open>try\<close> block, whatever its cause, is logged and replaced by
  the one error below.
\<close>

definition hash_failure :: js_error where
  "hash_failure = new_Error ''Failed to generate perceptual hash''"

definition generatePerceptualHash ::
  "image_env \<Rightarrow> string \<Rightarrow> bounding_box option \<Rightarrow> js_error + string" where
  "generatePerceptualHash env imageUrl boundingBox =
     (case fetch env imageUrl of
        None \<Rightarrow> Inl hash_failure
      | Some response \<Rightarrow>
          if \<not> ok response then Inl hash_failure
          else
            let buffer = arrayBuffer response in
            (case sharp_metadata env buffer of
               None \<Rightarrow> Inl hash_failure
             | Some metadata \<Rightarrow>
                 let imageWidth = or_1 (md_width metadata);
                     imageHeight = or_1 (md_height metadata);
                     region = map_option (crop_region imageWidth imageHeight) boundingBox
                 in (case sharp_raw env buffer region of
                       None \<Rightarrow> Inl hash_failure
                     | Some processed \<Rightarrow> Inr (hash_of_pixels processed))))"


text \<open>
  Collaborators for the examples: every URL but the empty one is fetched, the file declares
  the given dimensions, and the pixel pipeline returns the buffer used in the repository's
  tests.
\<close>

definition test_pixels :: "8 word list" where
  "test_pixels = [100, 150, 200, 50, 100, 150, 200, 50]"

definition test_image_env :: "nat option \<Rightarrow> nat option \<Rightarrow> image_env" where
  "test_image_env w h =
     \<lparr>fetch = (\<lambda>url. if url = [] then None
                      else Some \<lparr>ok = True, statusText = ''OK'', arrayBuffer = [1, 2, 3, 4]\<rparr>),
      image_header = (\<lambda>buffer. Some \<lparr>md_width = w, md_height = h\<rparr>),
      sharp_raw = (\<lambda>buffer region. Some test_pixels)\<rparr>"


section \<open>lib/gemini/multi-item-detection.ts\<close>

subsection \<open>Strings\<close>

text \<open>
  \<^verbatim>\<open>s.includes(search)\<close>: \<open>search\<close> occurs in \<open>s\<close> as a contiguous run. The name
  carries a prefix because \<open>includes\<close> is a keyword.
\<close>

fun String_includes :: "string \<Rightarrow> string \<Rightarrow> bool" where
  "String_includes [] search = (search = [])"
| "String_includes (c # cs) search = (prefix search (c # cs) \<or> String_includes cs search)"

text \<open>\<^verbatim>\<open>toLowerCase\<close>, on the letters A to Z.\<close>

definition lower_char :: "char \<Rightarrow> char" where
  "lower_char c =
     (let n = (of_char c :: nat) in if 65 \<le> n \<and> n \<le> 90 then char_of (n + 32) else c)"

definition toLowerCase :: "string \<Rightarrow> string" where
  "toLowerCase s = map lower_char s"

text \<open>
  \<^verbatim>\<open>trim\<close>: white space and line terminators removed at both ends (tab to carriage
  return, space and no-break space, the ones a \<open>char\<close> can hold).
\<close>

definition is_space :: "char \<Rightarrow> bool" where
  "is_space c = (let n = (of_char c :: nat) in (9 \<le> n \<and> n \<le> 13) \<or> n = 32 \<or> n = 160)"

definition trim :: "string \<Rightarrow> string" where
  "trim s = rev (dropWhile is_space (rev (dropWhile is_space s)))"

text \<open>The decimal digits of a number, as a template literal prints it.\<close>

fun decimal :: "nat \<Rightarrow> string" where
  "decimal n = (if n < 10 then [char_of (48 + n)]
                else decimal (n div 10) @ [char_of (48 + n mod 10)])"

declare decimal.simps [simp del]

subsection \<open>Data\<close>

text \<open>
  An object of the parsed \<^verbatim>\<open>items\<close> array. \<open>None\<close> is a missing (or null) field; for
  \<open>confidence\<close> it is any value whose \<^verbatim>\<open>typeof\<close> is not \<^verbatim>\<open>'number'\<close>. A confidence
  is the real that the parsed number denotes. An element of the array that is neither an
  object nor \<^verbatim>\<open>null\<close> (a number, a string) has no field at all and is the object with
  every field missing.
\<close>

record detected_item =
  det_description :: "string option"
  det_category :: "string option"
  bounding_box :: "bounding_box option"
  confidence :: "real option"

text \<open>
  What one pass through the \<^verbatim>\<open>try\<close> block meets: a value thrown by
  \<^verbatim>\<open>fetchImageAsBase64\<close>, \<^verbatim>\<open>generateContent\<close> or \<^verbatim>\<open>response.text()\<close>; a text
  that \<^verbatim>\<open>JSON.parse\<close> rejects with the given message; a parsed value without an
  \<^verbatim>\<open>items\<close> array; or the parsed array, whose elements are objects (\<open>Some\<close>) or
  \<^verbatim>\<open>null\<close> (\<open>None\<close>).
\<close>

datatype gemini_outcome =
    Throws js_error
  | Invalid_JSON string
  | No_items_array
  | Items "detected_item option list"

record detection_run =
  result :: "js_error + detected_item list"
  slept :: "nat list"
  attempts :: nat

subsection \<open>detectClothingItems\<close>

definition maxRetries :: nat where
  "maxRetries = 3"

text \<open>The callback of \<^verbatim>\<open>parsed.items.filter\<close>: a string is truthy when it is not empty.\<close>

definition truthy :: "string option \<Rightarrow> bool" where
  "truthy v = (case v of None \<Rightarrow> False | Some s \<Rightarrow> s \<noteq> [])"

definition keep_item :: "detected_item \<Rightarrow> bool" where
  "keep_item item =
     (if \<not> truthy (det_description item) \<or> \<not> truthy (det_category item)
         \<or> bounding_box item = None \<or> confidence item = None
      then False
      else (case confidence item of None \<Rightarrow> False | Some c \<Rightarrow> c > 0.5))"

text \<open>
  \<^verbatim>\<open>parsed.items.filter(...)\<close>: the callback runs on the elements in order. On
  \<^verbatim>\<open>null\<close> the read of \<^verbatim>\<open>item.description\<close> throws a \<^verbatim>\<open>TypeError\<close> (the message
  is that of Node.js), which ends the filter.
\<close>

definition null_item_error :: js_error where
  "null_item_error =
     (new_Error (''Cannot read properties of null (reading '' @ [CHR 0x27] @ ''description''
        @ [CHR 0x27] @ '')''))
       \<lparr>as_String := ''TypeError: Cannot read properties of null (reading '' @ [CHR 0x27]
          @ ''description'' @ [CHR 0x27] @ '')''\<rparr>"

fun filter_items :: "detected_item option list \<Rightarrow> js_error + detected_item list" where
  "filter_items [] = Inr []"
| "filter_items (None # rest) = Inl null_item_error"
| "filter_items (Some item # rest) =
     (case filter_items rest of
        Inl error \<Rightarrow> Inl error
      | Inr kept \<Rightarrow> Inr (if keep_item item then item # kept else kept))"

definition try_detect :: "gemini_outcome \<Rightarrow> js_error + detected_item list" where
  "try_detect outcome =
     (case outcome of
        Throws error \<Rightarrow> Inl error
      | Invalid_JSON parse_message \<Rightarrow>
          Inl (new_Error (''Failed to parse Gemini response as JSON: '' @ parse_message))
      | No_items_array \<Rightarrow>
          Inl (new_Error (''Gemini API response is missing or invalid '' @ [CHR 0x22]
                 @ ''items'' @ [CHR 0x22] @ '' array''))
      | Items items \<Rightarrow> filter_items items)"

definition isRateLimitError :: "js_error \<Rightarrow> bool" where
  "isRateLimitError error =
     ((is_Error error
        \<and> (String_includes (message error) ''rate limit''
           \<or> String_includes (message error) ''429''
           \<or> String_includes (toLowerCase (message error)) ''too many requests''
           \<or> String_includes (message error) ''RESOURCE_EXHAUSTED''
           \<or> String_includes (message error) ''quota''))
      \<or> status error = Some 429
      \<or> response_status error = Some 429
      \<or> statusCode error = Some 429
      \<or> code error = Some 429
      \<or> error_code error = Some ''RESOURCE_EXHAUSTED'')"

definition authentication_failed :: "string \<Rightarrow> string" where
  "authentication_failed original =
     ''Gemini API authentication failed. Please check that GEMINI_API_KEY is set correctly in your .env.local file. Original error: ''
       @ original"

definition rate_limit_exceeded :: "string \<Rightarrow> string" where
  "rate_limit_exceeded original =
     ''Gemini API rate limit exceeded. Please wait a few minutes and try again. If this persists, you may need to upgrade your Gemini API plan. Original error: ''
       @ original"

definition rate_limit_exceeded_after :: "nat \<Rightarrow> string \<Rightarrow> string" where
  "rate_limit_exceeded_after n original =
     ''Gemini API rate limit exceeded after '' @ decimal n
       @ '' attempts. Please wait a few minutes and try again. If this persists, you may need to upgrade your Gemini API plan. Original error: ''
       @ original"

text \<open>
  Lines 157 to 184: the error thrown from the \<^verbatim>\<open>catch\<close> block once the attempt is not
  retried.
\<close>

definition surfaced :: "string \<Rightarrow> js_error \<Rightarrow> bool \<Rightarrow> js_error" where
  "surfaced imageUrl error isRateLimit =
     (if is_Error error then
        if String_includes (message error) ''API key''
             \<or> String_includes (message error) ''authentication''
             \<or> String_includes (message error) ''API_KEY_INVALID''
        then new_Error (authentication_failed (message error))
        else if isRateLimit
        then new_Error (rate_limit_exceeded (message error))
        else if String_includes (message error) ''image''
                  \<and> (String_includes (message error) ''invalid''
                     \<or> String_includes (message error) ''not found'')
        then new_Error (''Failed to access image at URL: '' @ take 100 imageUrl
               @ ''... The image may not be publicly accessible or the URL may be invalid. Original error: ''
               @ message error)
        else if String_includes (message error) ''Failed to detect clothing items''
        then error
        else new_Error (''Failed to detect clothing items in image: '' @ message error)
      else new_Error (''Failed to detect clothing items in image: '' @ as_String error))"

text \<open>Lines 188 to 196: the statements after the loop.\<close>

definition after_loop :: "js_error option \<Rightarrow> js_error" where
  "after_loop lastError =
     (case lastError of
        Some e \<Rightarrow>
          if String_includes (message e) ''rate limit'' \<or> String_includes (message e) ''429''
               \<or> String_includes (message e) ''RESOURCE_EXHAUSTED''
          then new_Error (rate_limit_exceeded_after (maxRetries + 1) (message e))
          else e
      | None \<Rightarrow> new_Error ''Failed to detect clothing items: Unknown error occurred'')"

text \<open>
  The loop \<^verbatim>\<open>for (let attempt = 0; attempt <= maxRetries; attempt++)\<close>. The service is
  a function from the attempt number to what that attempt meets; \<open>slept\<close> collects the
  arguments of \<^verbatim>\<open>sleep\<close>, in milliseconds, and \<open>attempts\<close> counts the passes through
  the \<^verbatim>\<open>try\<close> block.
\<close>

function detect_loop ::
  "(nat \<Rightarrow> gemini_outcome) \<Rightarrow> string \<Rightarrow> nat \<Rightarrow> js_error option \<Rightarrow> nat list
     \<Rightarrow> detection_run" where
  "detect_loop gemini imageUrl attempt lastError waits =
     (if attempt \<le> maxRetries then
        (case try_detect (gemini attempt) of
           Inr filteredItems \<Rightarrow>
             \<lparr>result = Inr filteredItems, slept = waits, attempts = attempt + 1\<rparr>
         | Inl error \<Rightarrow>
             let lastError' = (if is_Error error then error else new_Error (as_String error));
                 isRateLimit = isRateLimitError error
             in if isRateLimit \<and> attempt < maxRetries
                then let waitTime = 2 ^ attempt * 1000
                     in detect_loop gemini imageUrl (attempt + 1) (Some lastError')
                          (waits @ [waitTime])
                else \<lparr>result = Inl (surfaced imageUrl error isRateLimit), slept = waits,
                      attempts = attempt + 1\<rparr>)
      else \<lparr>result = Inl (after_loop lastError), slept = waits, attempts = attempt\<rparr>)"
  by pat_completeness auto
termination
  by (relation "measure (\<lambda>(gemini, imageUrl, attempt, lastError, waits). Suc maxRetries - attempt)")
     auto

declare detect_loop.simps [simp del]

definition detectClothingItems ::
  "string option \<Rightarrow> (nat \<Rightarrow> gemini_outcome) \<Rightarrow> string \<Rightarrow> detection_run" where
  "detectClothingItems GEMINI_API_KEY gemini imageUrl =
     (if \<not> truthy GEMINI_API_KEY
      then \<lparr>result = Inl (new_Error
               ''GEMINI_API_KEY is not configured. Please set it in your .env.local file.''),
            slept = [], attempts = 0\<rparr>
      else if imageUrl = [] \<or> trim imageUrl = []
      then \<lparr>result = Inl (new_Error
               ''Invalid image URL: imageUrl is required and must be a non-empty string''),
            slept = [], attempts = 0\<rparr>
      else detect_loop gemini imageUrl 0 None [])"

subsection \<open>Notions used by the properties, and sample data\<close>

text \<open>Attempt \<open>k\<close> fails with a value that \<open>isRateLimitError\<close> accepts.\<close>

definition rate_limited :: "(nat \<Rightarrow> gemini_outcome) \<Rightarrow> nat \<Rightarrow> bool" where
  "rate_limited gemini k =
     (case try_detect (gemini k) of Inl error \<Rightarrow> isRateLimitError error | Inr items \<Rightarrow> False)"

text \<open>The first \<open>n\<close> waiting times, in milliseconds.\<close>

definition backoff :: "nat \<Rightarrow> nat list" where
  "backoff n = map (\<lambda>attempt. 2 ^ attempt * 1000) [0 ..< n]"

text \<open>The three markers that \<open>surfaced\<close> looks for first.\<close>

definition auth_indicated :: "string \<Rightarrow> bool" where
  "auth_indicated msg =
     (String_includes msg ''API key'' \<or> String_includes msg ''authentication''
        \<or> String_includes msg ''API_KEY_INVALID'')"

text \<open>Services: one that always throws, one that throws \<open>n\<close> times and then answers.\<close>

definition always_throws :: "js_error \<Rightarrow> nat \<Rightarrow> gemini_outcome" where
  "always_throws error attempt = Throws error"

definition throws_then :: "nat \<Rightarrow> js_error \<Rightarrow> gemini_outcome \<Rightarrow> nat \<Rightarrow> gemini_outcome" where
  "throws_then n error outcome attempt = (if attempt < n then Throws error else outcome)"

text \<open>A detected item of the tests, with a given confidence.\<close>

definition test_item :: "real \<Rightarrow> detected_item" where
  "test_item c = \<lparr>det_description = Some ''Blue shirt'', det_category = Some ''shirt'',
     bounding_box = Some \<lparr>bb_x = 10, bb_y = 20, bb_width = 30, bb_height = 40\<rparr>,
     confidence = Some c\<rparr>"

text \<open>
  Two thrown values: an \<^verbatim>\<open>Error\<close> whose message has a rate-limit marker and an
  authentication marker, and a plain object \<^verbatim>\<open>{status: 429}\<close>.
\<close>

definition quota_with_key_error :: js_error where
  "quota_with_key_error = new_Error ''[429 Too Many Requests] Quota exceeded for this API key''"

definition status_429_object :: js_error where
  "status_429_object = \<lparr>is_Error = False, message = [], status = Some 429,
     response_status = None, statusCode = None, code = None, error_code = None,
     as_String = ''[object Object]''\<rparr>"

text \<open>An \<^verbatim>\<open>Error\<close> with the text the service sends when a quota is used up.\<close>

definition resource_exhausted_error :: js_error where
  "resource_exhausted_error = new_Error ''Resource has been exhausted (e.g. check quota).''"

definition test_url :: string where
  "test_url = ''https://example.com/image.jpg''"

section \<open>app/actions/process-image.ts\<close>

text \<open>The module is \<^verbatim>\<open>src/unnamed/part_011\<close>.\<close>

subsection \<open>Data\<close>

text \<open>
  \<^verbatim>\<open>ClothingMetadata\<close> as it comes out of \<^verbatim>\<open>JSON.parse\<close> or out of the
  \<^verbatim>\<open>ai_metadata\<close> column: an object whose keys may be missing. \<open>None\<close> is a missing
  key; a key that is present holds a value of its declared type.
\<close>

record clothing_metadata =
  category :: "string option"
  sub_category :: "string option"
  primary_color :: "string option"
  secondary_colors :: "string list option"
  vibe_tags :: "string list option"
  estimated_season :: "string option"

text \<open>The \<^verbatim>\<open>image_urls\<close> column: \<^verbatim>\<open>{primary, variants}\<close>, the list possibly missing.\<close>

record image_urls_json =
  primary :: string
  variants :: "string list option"

text \<open>A row of the table \<^verbatim>\<open>clothing_items\<close>, with the columns the pipeline touches.\<close>

record clothing_item =
  item_id :: string
  user_id :: string
  image_urls :: "image_urls_json option"
  perceptual_hash :: "string option"
  ai_metadata :: "clothing_metadata option"
  updated_at :: string

record process_item_input =
  imageUrl :: string
  description :: "string option"
  input_category :: "string option"
  boundingBox :: "bounding_box option"

record processed_item =
  result_id :: string
  merged :: bool
  existing_item_id :: "string option"
  imageAdded :: "bool option"

text \<open>
  What the pipeline reads and calls: the two environment variables of
  \<^verbatim>\<open>createServiceClient\<close>, the image collaborators of the fingerprinter, the metadata
  analysis of \<^verbatim>\<open>lib/gemini/vision.ts\<close> (which throws an \<^verbatim>\<open>Error\<close> or returns the
  parsed object), and the database. The table is a list of rows; \<open>new_id\<close> is the
  identifier the database gives to an inserted row, \<open>db_insert_error\<close> the
  \<^verbatim>\<open>error.message\<close> of a rejected insert (\<open>None\<close> when the insert is accepted),
  \<open>db_update_error\<close> tells whether an update is rejected, and \<open>now\<close> is
  \<^verbatim>\<open>new Date().toISOString()\<close>.
\<close>

record process_env =
  NEXT_PUBLIC_SUPABASE_URL :: "string option"
  SUPABASE_SERVICE_ROLE_KEY :: "string option"
  images :: image_env
  analyzeClothingImage :: "string \<Rightarrow> string option \<Rightarrow> js_error + clothing_metadata"
  new_id :: "clothing_item list \<Rightarrow> string"
  db_insert_error :: "clothing_item list \<Rightarrow> string option"
  db_update_error :: "clothing_item list \<Rightarrow> string \<Rightarrow> bool"
  now :: string

text \<open>
  \<^verbatim>\<open>.single()\<close> of the database client: the row when the query selects exactly one row,
  no data (and an error) otherwise.
\<close>

fun single :: "'a list \<Rightarrow> 'a option" where
  "single [r] = Some r"
| "single rows = None"

subsection \<open>The JavaScript operators used by mergeItem\<close>

text \<open>\<^verbatim>\<open>a || b\<close> on optional strings: \<open>a\<close> when it is present and not empty.\<close>

definition js_or :: "string option \<Rightarrow> string option \<Rightarrow> string option" where
  "js_or a b = (case a of None \<Rightarrow> b | Some v \<Rightarrow> if v = [] then b else Some v)"

text \<open>\<^verbatim>\<open>xs || []\<close> on an optional array: an array, even an empty one, is truthy.\<close>

definition or_empty :: "'a list option \<Rightarrow> 'a list" where
  "or_empty xs = (case xs of None \<Rightarrow> [] | Some ys \<Rightarrow> ys)"

text \<open>
  A key of \<^verbatim>\<open>{...existingMetadata, ...newMetadata}\<close> that no later entry of the literal
  overrides: the new object's value when it has the key, whatever the value.
\<close>

definition spread :: "'a option \<Rightarrow> 'a option \<Rightarrow> 'a option" where
  "spread existing new = (case new of None \<Rightarrow> existing | Some v \<Rightarrow> Some v)"

text \<open>\<^verbatim>\<open>Array.from(new Set(xs))\<close>: the values in the order of their first insertion.\<close>

fun Set_add_all :: "'a list \<Rightarrow> 'a list \<Rightarrow> 'a list" where
  "Set_add_all [] entries = entries"
| "Set_add_all (v # vs) entries =
     Set_add_all vs (if v \<in> set entries then entries else entries @ [v])"

definition Array_from_Set :: "'a list \<Rightarrow> 'a list" where
  "Array_from_Set xs = Set_add_all xs []"

text \<open>\<^verbatim>\<open>a.indexOf(v)\<close>: the first index holding \<open>v\<close>, or -1.\<close>

fun indexOf :: "'a list \<Rightarrow> 'a \<Rightarrow> int" where
  "indexOf [] v = - 1"
| "indexOf (a # as) v =
     (if a = v then 0 else (let r = indexOf as v in if r < 0 then - 1 else r + 1))"

text \<open>\<^verbatim>\<open>a.filter((v, i, a) => a.indexOf(v) === i)\<close>.\<close>

definition filter_first_index :: "'a list \<Rightarrow> 'a list" where
  "filter_first_index a =
     map fst (filter (\<lambda>(v, i). indexOf a v = int i) (zip a [0 ..< length a]))"

subsection \<open>mergeItem\<close>

text \<open>Lines 168 to 173: the image references written back by a merge.\<close>

definition merged_image_urls :: "clothing_item \<Rightarrow> string \<Rightarrow> image_urls_json" where
  "merged_image_urls existingItem newImageUrl =
     (let imageUrls = (case image_urls existingItem of
                         None \<Rightarrow> \<lparr>primary = [], variants = Some []\<rparr>
                       | Some u \<Rightarrow> u);
          imageUrls = (if variants imageUrls = None then imageUrls\<lparr>variants := Some []\<rparr>
                       else imageUrls)
      in imageUrls\<lparr>variants := Some (or_empty (variants imageUrls) @ [newImageUrl])\<rparr>)"

text \<open>Lines 179 to 198: the metadata written back by a merge.\<close>

definition mergedMetadata :: "clothing_metadata \<Rightarrow> clothing_metadata \<Rightarrow> clothing_metadata" where
  "mergedMetadata existingMetadata newMetadata =
     (let combinedVibeTags =
            or_empty (vibe_tags existingMetadata) @ or_empty (vibe_tags newMetadata);
          uniqueVibeTags = Array_from_Set combinedVibeTags
      in \<lparr>category = js_or (category newMetadata) (category existingMetadata),
          sub_category = js_or (sub_category newMetadata) (sub_category existingMetadata),
          primary_color = js_or (primary_color newMetadata) (primary_color existingMetadata),
          secondary_colors = Some (filter_first_index
             (or_empty (secondary_colors existingMetadata)
                @ or_empty (secondary_colors newMetadata))),
          vibe_tags = Some uniqueVibeTags,
          estimated_season =
             spread (estimated_season existingMetadata) (estimated_season newMetadata)\<rparr>)"

definition empty_metadata :: clothing_metadata where
  "empty_metadata = \<lparr>category = None, sub_category = None, primary_color = None,
     secondary_colors = None, vibe_tags = None, estimated_season = None\<rparr>"

text \<open>
  The update \<^verbatim>\<open>.eq('id', existingItemId).select().single()\<close>: it fails when the database
  rejects it or when it does not touch exactly one row, and then leaves the table as it was.
\<close>

definition mergeItem ::
  "process_env \<Rightarrow> clothing_item list \<Rightarrow> string \<Rightarrow> string \<Rightarrow> string
     \<Rightarrow> (js_error + clothing_item) \<times> clothing_item list" where
  "mergeItem env db existingItemId newImageUrl userId =
     (case single (filter (\<lambda>r. item_id r = existingItemId \<and> user_id r = userId) db) of
        None \<Rightarrow> (Inl (new_Error ''Existing item not found''), db)
      | Some existingItem \<Rightarrow>
          let imageUrls = merged_image_urls existingItem newImageUrl;
              existingMetadata = (case ai_metadata existingItem of
                                    None \<Rightarrow> empty_metadata | Some m \<Rightarrow> m)
          in (case analyzeClothingImage env newImageUrl None of
                Inl error \<Rightarrow> (Inl error, db)
              | Inr newMetadata \<Rightarrow>
                  let patch = (\<lambda>r. r\<lparr>image_urls := Some imageUrls,
                                       ai_metadata := Some (mergedMetadata existingMetadata newMetadata),
                                       updated_at := now env\<rparr>);
                      db' = map (\<lambda>r. if item_id r = existingItemId then patch r else r) db
                  in if db_update_error env db existingItemId
                     then (Inl (new_Error ''Failed to merge item''), db)
                     else (case single (filter (\<lambda>r. item_id r = existingItemId) db') of
                             None \<Rightarrow> (Inl (new_Error ''Failed to merge item''), db)
                           | Some updatedItem \<Rightarrow> (Inr updatedItem, db'))))"

subsection \<open>processClothingItems\<close>

text \<open>
  The body of the \<^verbatim>\<open>try\<close> block for one item. The query for similar items (step 3) is
  sent but its result is not used, so it does not appear. Messages written to the console
  are not part of the result either.
\<close>

definition try_item ::
  "process_env \<Rightarrow> string \<Rightarrow> process_item_input \<Rightarrow> clothing_item list
     \<Rightarrow> (js_error + processed_item) \<times> clothing_item list" where
  "try_item env userId item db =
     (case generatePerceptualHash (images env) (imageUrl item) (boundingBox item) of
        Inl error \<Rightarrow> (Inl error, db)
      | Inr perceptualHash \<Rightarrow>
          (case single (filter (\<lambda>r. user_id r = userId
                                  \<and> perceptual_hash r = Some perceptualHash) db) of
             Some exactMatch \<Rightarrow>
               (case mergeItem env db (item_id exactMatch) (imageUrl item) userId of
                  (Inl error, db') \<Rightarrow> (Inl error, db')
                | (Inr mergedItem, db') \<Rightarrow>
                    (Inr \<lparr>result_id = item_id mergedItem, merged = True,
                          existing_item_id = Some (item_id exactMatch),
                          imageAdded = Some True\<rparr>, db'))
           | None \<Rightarrow>
               (case analyzeClothingImage env (imageUrl item) (description item) of
                  Inl error \<Rightarrow> (Inl error, db)
                | Inr metadata \<Rightarrow>
                    let imageUrls = \<lparr>primary = imageUrl item, variants = Some []\<rparr> in
                    (case db_insert_error env db of
                       Some msg \<Rightarrow>
                         let errorDetails =
                               (if msg = [] then ''Unknown database error'' else msg)
                         in (Inl (new_Error (''Failed to create clothing item: '' @ errorDetails)),
                             db)
                     | None \<Rightarrow>
                         let newItem = \<lparr>item_id = new_id env db, user_id = userId,
                                        image_urls = Some imageUrls,
                                        perceptual_hash = Some perceptualHash,
                                        ai_metadata = Some metadata,
                                        updated_at = now env\<rparr>
                         in (Inr \<lparr>result_id = item_id newItem, merged = False,
                                  existing_item_id = None, imageAdded = None\<rparr>,
                             db @ [newItem])))))"

text \<open>The record pushed by the \<^verbatim>\<open>catch\<close> block.\<close>

definition failed_item :: processed_item where
  "failed_item = \<lparr>result_id = [], merged = False, existing_item_id = None, imageAdded = None\<rparr>"

fun process_loop ::
  "process_env \<Rightarrow> string \<Rightarrow> process_item_input list \<Rightarrow> processed_item list
     \<Rightarrow> clothing_item list \<Rightarrow> processed_item list \<times> clothing_item list" where
  "process_loop env userId [] results db = (results, db)"
| "process_loop env userId (item # rest) results db =
     (case try_item env userId item db of
        (Inr r, db') \<Rightarrow> process_loop env userId rest (results @ [r]) db'
      | (Inl error, db') \<Rightarrow> process_loop env userId rest (results @ [failed_item]) db')"

text \<open>
  \<^verbatim>\<open>createServiceClient\<close> of \<^verbatim>\<open>lib/supabase/server.ts\<close>: it throws when one of its
  environment variables is missing or empty. The client itself is the table.
\<close>

definition createServiceClient :: "process_env \<Rightarrow> js_error option" where
  "createServiceClient env =
     (if \<not> truthy (NEXT_PUBLIC_SUPABASE_URL env)
      then Some (new_Error
        ''NEXT_PUBLIC_SUPABASE_URL is not configured. Please set it in your .env.local file.'')
      else if \<not> truthy (SUPABASE_SERVICE_ROLE_KEY env)
      then Some (new_Error
        ''SUPABASE_SERVICE_ROLE_KEY is not configured. Please set it in your .env.local file.'')
      else None)"

definition processClothingItems ::
  "process_env \<Rightarrow> string \<Rightarrow> process_item_input list \<Rightarrow> clothing_item list
     \<Rightarrow> (js_error + processed_item list) \<times> clothing_item list" where
  "processClothingItems env userId items db =
     (case createServiceClient env of
        Some error \<Rightarrow> (Inl error, db)
      | None \<Rightarrow>
          (case process_loop env userId items [] db of
             (results, db') \<Rightarrow> (Inr results, db')))"

text \<open>
  The loop once more, without the accumulator: the outcome of the first item, then the
  outcomes of the others against the table the first one left.
\<close>

fun outcome_of :: "js_error + processed_item \<Rightarrow> processed_item" where
  "outcome_of (Inl error) = failed_item"
| "outcome_of (Inr r) = r"

fun outcomes ::
  "process_env \<Rightarrow> string \<Rightarrow> process_item_input list \<Rightarrow> clothing_item list
     \<Rightarrow> processed_item list \<times> clothing_item list" where
  "outcomes env userId [] db = ([], db)"
| "outcomes env userId (item # rest) db =
     (outcome_of (fst (try_item env userId item db))
        # fst (outcomes env userId rest (snd (try_item env userId item db))),
      snd (outcomes env userId rest (snd (try_item env userId item db))))"

subsection \<open>Sample data\<close>

text \<open>The metadata and the collaborators used by the repository's tests.\<close>

definition test_metadata :: clothing_metadata where
  "test_metadata = \<lparr>category = Some ''top'', sub_category = Some ''t-shirt'',
     primary_color = Some ''navy blue'', secondary_colors = Some [''white''],
     vibe_tags = Some [''casual''], estimated_season = Some ''all-season''\<rparr>"

definition test_env :: process_env where
  "test_env = \<lparr>NEXT_PUBLIC_SUPABASE_URL = Some ''https://test.supabase.co'',
     SUPABASE_SERVICE_ROLE_KEY = Some ''test-service-role-key'',
     images = test_image_env (Some 100) (Some 100),
     analyzeClothingImage = (\<lambda>url hint. Inr test_metadata),
     new_id = (\<lambda>db. ''item-'' @ decimal (length db)),
     db_insert_error = (\<lambda>db. None),
     db_update_error = (\<lambda>db item. False),
     now = ''2024-01-01T00:00:00.000Z''\<rparr>"

definition test_input :: "string \<Rightarrow> process_item_input" where
  "test_input url = \<lparr>imageUrl = url, description = Some ''A navy blue t-shirt'',
     input_category = None, boundingBox = None\<rparr>"

definition test_row :: "string list \<Rightarrow> clothing_item" where
  "test_row vs = \<lparr>item_id = ''item-0'', user_id = ''user'',
     image_urls = Some \<lparr>primary = ''u'', variants = Some vs\<rparr>,
     perceptual_hash = Some ''01100110'', ai_metadata = Some test_metadata,
     updated_at = ''2024-01-01T00:00:00.000Z''\<rparr>"

text \<open>
  The object passed to \<^verbatim>\<open>update\<close> by \<open>mergeItem\<close>, as a function on rows: the three
  columns it sets, computed from the row the merge has read.
\<close>

definition merge_patch ::
  "process_env \<Rightarrow> clothing_item \<Rightarrow> string \<Rightarrow> clothing_metadata \<Rightarrow> clothing_item
     \<Rightarrow> clothing_item" where
  "merge_patch env existingItem newImageUrl newMetadata r =
     r\<lparr>image_urls := Some (merged_image_urls existingItem newImageUrl),
       ai_metadata := Some (mergedMetadata
          (case ai_metadata existingItem of None \<Rightarrow> empty_metadata | Some m \<Rightarrow> m)
          newMetadata),
       updated_at := now env\<rparr>"

text \<open>A second analysis of the same item, with empty and missing scalar fields.\<close>

definition new_test_metadata :: clothing_metadata where
  "new_test_metadata = \<lparr>category = Some [], sub_category = Some [], primary_color = None,
     secondary_colors = Some [''white'', ''red''], vibe_tags = Some [''casual'', ''minimalist''],
     estimated_season = Some ''summer''\<rparr>"

text \<open>The list of variants of a row, empty when the column or the key is missing.\<close>

definition variants_of :: "clothing_item \<Rightarrow> string list" where
  "variants_of r = (case image_urls r of None \<Rightarrow> [] | Some u \<Rightarrow> or_empty (variants u))"

text \<open>The invariant on the primary image reference of every row.\<close>

definition primary_set :: "clothing_item \<Rightarrow> bool" where
  "primary_set r = (case image_urls r of None \<Rightarrow> False | Some u \<Rightarrow> primary u \<noteq> [])"

section \<open>Properties of hammingDistance\<close>

lemma hamming_loop_count:
  "hamming_loop a b i d = d + card {j. i \<le> j \<and> j < length a \<and> a ! j \<noteq> b ! j}"
proof (induction a b i d rule: hamming_loop.induct)
  case (1 hash1 hash2 i distance)
  show ?case
  proof (cases "i < length hash1")
    case False
    then have "{j. i \<le> j \<and> j < length hash1 \<and> hash1 ! j \<noteq> hash2 ! j} = {}" by auto
    with False show ?thesis by (subst hamming_loop.simps) simp
  next
    case True
    let ?S = "{j. Suc i \<le> j \<and> j < length hash1 \<and> hash1 ! j \<noteq> hash2 ! j}"
    have fin: "finite ?S" by simp
    have split: "{j. i \<le> j \<and> j < length hash1 \<and> hash1 ! j \<noteq> hash2 ! j}
        = (if hash1 ! i \<noteq> hash2 ! i then insert i ?S else ?S)"
      using True by (auto simp: Suc_le_eq le_less)
    have notin: "i \<notin> ?S" by simp
    show ?thesis
      using True "1.IH"[OF True] split fin notin
      by (subst hamming_loop.simps) simp
  qed
qed

text \<open>
  C10. For every pair of signatures, \<open>hammingDistance\<close> throws the length-mismatch error when
  the lengths differ, and otherwise returns the number of positions at which the two
  signatures differ.
\<close>

theorem hammingDistance_spec:
  "hammingDistance a b =
     (if length a \<noteq> length b then Inl (new_Error ''Hashes must be of equal length'')
      else Inr (card {i. i < length a \<and> a ! i \<noteq> b ! i}))"
  by (simp add: hammingDistance_def hamming_loop_count)

text \<open>The 4-bit and 6-bit signatures of the repository's test, and two 8-bit signatures.\<close>

theorem hammingDistance_spec_witness:
  "hammingDistance ''1010'' ''101010'' = Inl (new_Error ''Hashes must be of equal length'')
   \<and> hammingDistance ''10101010'' ''10101011''
       = Inr (card {i. i < length ''10101010'' \<and> ''10101010'' ! i \<noteq> ''10101011'' ! i})"
  using hammingDistance_spec[of "''1010''" "''101010''"]
    hammingDistance_spec[of "''10101010''" "''10101011''"]
  by simp

section \<open>Properties of generatePerceptualHash\<close>

lemmas fl_eval = Number_div_def Number_mul_def fl_def binade_def binade_loop.simps pow2_def
  round_even_def Let_def







lemma hash_test: "hash_of_pixels test_pixels = ''01100110''"
  by (simp add: hash_of_pixels_def test_pixels_def fl_eval)



text \<open>
  C8. The fingerprint operation fails, with the error it throws for every failure, when the
  source image declares zero width or zero height: the dimensions are not replaced by 1 and
  no signature is produced, whatever the region and whatever the pixel pipeline would return.
\<close>

theorem zero_dimension_fails:
  "fetch env url = Some response \<longrightarrow> ok response
   \<longrightarrow> image_header env (arrayBuffer response) = Some declared
   \<longrightarrow> md_width declared = Some 0 \<or> md_height declared = Some 0
   \<longrightarrow> generatePerceptualHash env url bb = Inl hash_failure
        \<and> hash_failure = new_Error ''Failed to generate perceptual hash''"
  by (auto simp: generatePerceptualHash_def sharp_metadata_def hash_failure_def)

text \<open>A source declared as 0 by 50 pixels, with a region, and one declared as 100 by 0.\<close>

theorem zero_dimension_fails_witness:
  "generatePerceptualHash (test_image_env (Some 0) (Some 50)) ''u''
      (Some \<lparr>bb_x = 10, bb_y = 20, bb_width = 30, bb_height = 40\<rparr>)
     = Inl (new_Error ''Failed to generate perceptual hash'')
   \<and> generatePerceptualHash (test_image_env (Some 100) (Some 0)) ''u'' None
     = Inl (new_Error ''Failed to generate perceptual hash'')"
proof -
  let ?resp = "\<lparr>ok = True, statusText = ''OK'', arrayBuffer = [1, 2, 3, 4]\<rparr>"
  have f: "fetch (test_image_env w h) ''u'' = Some ?resp" for w h
    by (simp add: test_image_env_def)
  have k: "ok ?resp" by simp
  have d: "image_header (test_image_env w h) (arrayBuffer ?resp)
      = Some \<lparr>md_width = w, md_height = h\<rparr>" for w h
    by (simp add: test_image_env_def)
  have z1: "md_width \<lparr>md_width = Some 0, md_height = Some 50\<rparr> = Some 0
      \<or> md_height \<lparr>md_width = Some 0, md_height = Some 50\<rparr> = Some 0"
    by simp
  have z2: "md_width \<lparr>md_width = Some 100, md_height = Some 0\<rparr> = Some 0
      \<or> md_height \<lparr>md_width = Some 100, md_height = Some 0\<rparr> = Some 0"
    by simp
  from zero_dimension_fails[where env = "test_image_env (Some 0) (Some 50)" and url = "''u''"
      and response = ?resp and declared = "\<lparr>md_width = Some 0, md_height = Some 50\<rparr>"
      and bb = "Some \<lparr>bb_x = 10, bb_y = 20, bb_width = 30, bb_height = 40\<rparr>"]
    f k d z1
  have a: "generatePerceptualHash (test_image_env (Some 0) (Some 50)) ''u''
      (Some \<lparr>bb_x = 10, bb_y = 20, bb_width = 30, bb_height = 40\<rparr>)
     = Inl (new_Error ''Failed to generate perceptual hash'')"
    by simp
  from zero_dimension_fails[where env = "test_image_env (Some 100) (Some 0)" and url = "''u''"
      and response = ?resp and declared = "\<lparr>md_width = Some 100, md_height = Some 0\<rparr>"
      and bb = None]
    f k d z2
  have b: "generatePerceptualHash (test_image_env (Some 100) (Some 0)) ''u'' None
     = Inl (new_Error ''Failed to generate perceptual hash'')"
    by simp
  from a b show ?thesis by blast
qed

section \<open>Properties of detectClothingItems\<close>

lemma decimal_small: "decimal 0 = ''0''" "decimal 1 = ''1''" "decimal 4 = ''4''"
  by code_simp+

lemma detect_loop_retry:
  "attempt < maxRetries \<Longrightarrow> rate_limited gemini attempt \<Longrightarrow>
   \<exists>lastError'. detect_loop gemini url attempt lastError waits
     = detect_loop gemini url (attempt + 1) lastError' (waits @ [2 ^ attempt * 1000])"
  by (subst detect_loop.simps) (auto simp: rate_limited_def Let_def split: sum.splits)

lemma detect_loop_success:
  "attempt \<le> maxRetries \<Longrightarrow> try_detect (gemini attempt) = Inr items \<Longrightarrow>
   detect_loop gemini url attempt lastError waits
     = \<lparr>result = Inr items, slept = waits, attempts = attempt + 1\<rparr>"
  by (subst detect_loop.simps) simp

lemma detect_loop_not_rate_limit:
  "attempt \<le> maxRetries \<Longrightarrow> try_detect (gemini attempt) = Inl error \<Longrightarrow>
   \<not> isRateLimitError error \<Longrightarrow>
   detect_loop gemini url attempt lastError waits
     = \<lparr>result = Inl (surfaced url error False), slept = waits, attempts = attempt + 1\<rparr>"
  by (subst detect_loop.simps) (simp add: Let_def)

lemma detect_loop_exhausted:
  "try_detect (gemini maxRetries) = Inl error \<Longrightarrow> isRateLimitError error \<Longrightarrow>
   detect_loop gemini url maxRetries lastError waits
     = \<lparr>result = Inl (surfaced url error True), slept = waits, attempts = maxRetries + 1\<rparr>"
  by (subst detect_loop.simps) (simp add: Let_def)

lemma detect_loop_retries:
  "a + n \<le> maxRetries \<Longrightarrow> (\<forall>k. a \<le> k \<and> k < a + n \<longrightarrow> rate_limited gemini k) \<Longrightarrow>
   \<exists>lastError'. detect_loop gemini url a lastError waits
     = detect_loop gemini url (a + n) lastError'
         (waits @ map (\<lambda>attempt. 2 ^ attempt * 1000) [a ..< a + n])"
proof (induction n arbitrary: a lastError waits)
  case 0
  then show ?case by auto
next
  case (Suc n)
  from Suc.prems have a: "a < maxRetries" "rate_limited gemini a" by auto
  from detect_loop_retry[OF a] obtain le1 where
    step: "detect_loop gemini url a lastError waits
      = detect_loop gemini url (a + 1) le1 (waits @ [2 ^ a * 1000])"
    by blast
  from Suc.prems have "Suc a + n \<le> maxRetries"
    "\<forall>k. Suc a \<le> k \<and> k < Suc a + n \<longrightarrow> rate_limited gemini k"
    by auto
  from Suc.IH[OF this, of le1 "waits @ [2 ^ a * 1000]"] obtain le2 where
    "detect_loop gemini url (Suc a) le1 (waits @ [2 ^ a * 1000])
      = detect_loop gemini url (Suc a + n) le2
         ((waits @ [2 ^ a * 1000]) @ map (\<lambda>attempt. 2 ^ attempt * 1000) [Suc a ..< Suc a + n])"
    by blast
  moreover have "[a ..< a + Suc n] = a # [Suc a ..< Suc a + n]"
    by (simp add: upt_conv_Cons)
  ultimately show ?case using step by auto
qed

lemma detect_loop_from_0:
  "n \<le> maxRetries \<Longrightarrow> (\<forall>k < n. rate_limited gemini k) \<Longrightarrow>
   \<exists>lastError'. detect_loop gemini url 0 None []
     = detect_loop gemini url n lastError' (backoff n)"
  using detect_loop_retries[of 0 n gemini url None "[]"] by (simp add: backoff_def)

lemma detect_loop_bounds:
  "a \<le> maxRetries \<Longrightarrow>
   a < attempts (detect_loop gemini url a lastError waits)
   \<and> attempts (detect_loop gemini url a lastError waits) \<le> maxRetries + 1
   \<and> slept (detect_loop gemini url a lastError waits)
       = waits @ map (\<lambda>attempt. 2 ^ attempt * 1000)
                   [a ..< attempts (detect_loop gemini url a lastError waits) - 1]
   \<and> (\<forall>k. a \<le> k \<and> k < attempts (detect_loop gemini url a lastError waits) - 1
          \<longrightarrow> rate_limited gemini k)"
proof (induction "maxRetries - a" arbitrary: a lastError waits)
  case 0
  then have a: "a = maxRetries" by simp
  show ?case
    unfolding a by (subst (1 2 3 4 5) detect_loop.simps) (auto simp: Let_def split: sum.splits)
next
  case (Suc n)
  then have lt: "a < maxRetries" by simp
  show ?case
  proof (cases "rate_limited gemini a")
    case True
    from detect_loop_retry[OF lt True] obtain le1 where
      step: "detect_loop gemini url a lastError waits
        = detect_loop gemini url (a + 1) le1 (waits @ [2 ^ a * 1000])"
      by blast
    from Suc.hyps(2) have "n = maxRetries - (a + 1)" by simp
    from Suc.hyps(1)[OF this, of le1 "waits @ [2 ^ a * 1000]"] lt
    have ih: "a + 1 < attempts (detect_loop gemini url (a + 1) le1 (waits @ [2 ^ a * 1000]))"
      "attempts (detect_loop gemini url (a + 1) le1 (waits @ [2 ^ a * 1000])) \<le> maxRetries + 1"
      "slept (detect_loop gemini url (a + 1) le1 (waits @ [2 ^ a * 1000]))
         = (waits @ [2 ^ a * 1000]) @ map (\<lambda>attempt. 2 ^ attempt * 1000)
             [a + 1 ..< attempts (detect_loop gemini url (a + 1) le1 (waits @ [2 ^ a * 1000])) - 1]"
      "\<forall>k. a + 1 \<le> k \<and> k < attempts (detect_loop gemini url (a + 1) le1 (waits @ [2 ^ a * 1000])) - 1
          \<longrightarrow> rate_limited gemini k"
      by simp_all
    let ?m = "attempts (detect_loop gemini url (a + 1) le1 (waits @ [2 ^ a * 1000]))"
    from ih(1) have "[a ..< ?m - 1] = a # [a + 1 ..< ?m - 1]"
      by (simp add: upt_conv_Cons)
    then have sl: "slept (detect_loop gemini url (a + 1) le1 (waits @ [2 ^ a * 1000]))
        = waits @ map (\<lambda>attempt. 2 ^ attempt * 1000) [a ..< ?m - 1]"
      using ih(3) by simp
    have rl: "\<forall>k. a \<le> k \<and> k < ?m - 1 \<longrightarrow> rate_limited gemini k"
    proof (intro allI impI)
      fix k assume k: "a \<le> k \<and> k < ?m - 1"
      show "rate_limited gemini k"
      proof (cases "k = a")
        case True
        with \<open>rate_limited gemini a\<close> show ?thesis by simp
      next
        case False
        with k have "a + 1 \<le> k \<and> k < ?m - 1" by simp
        with ih(4) show ?thesis by blast
      qed
    qed
    from ih(1) have "a < ?m" by simp
    with ih(2) sl rl show ?thesis
      unfolding step by blast
  next
    case False
    with lt show ?thesis
      by (subst (1 2 3 4 5) detect_loop.simps)
         (auto simp: rate_limited_def Let_def split: sum.splits)
  qed
qed

lemma backoff_3: "backoff 3 = [1000, 2000, 4000]"
  by (simp add: backoff_def upt_rec)

lemma backoff_0: "backoff 0 = []"
  by (simp add: backoff_def)

lemma detect_valid:
  "truthy key \<Longrightarrow> trim url \<noteq> [] \<Longrightarrow>
   detectClothingItems key gemini url = detect_loop gemini url 0 None []"
  by (auto simp: detectClothingItems_def trim_def)

lemma surfaced_rate_limit:
  "is_Error error \<Longrightarrow> \<not> auth_indicated (message error) \<Longrightarrow>
   surfaced url error True = new_Error (rate_limit_exceeded (message error))"
  by (simp add: surfaced_def auth_indicated_def)

text \<open>
  C2, amended. A call makes at most 4 attempts; it waits \<open>1000 * 2 ^ attempt\<close> milliseconds
  (1 s, 2 s, 4 s) after each attempt that is retried and at no other time, and only attempts
  that failed with a rate-limit error are retried. With a key and a URL that pass the
  validation: a success after \<open>n \<le> 3\<close> rate-limit failures is returned after exactly \<open>n\<close>
  waits (three waits of 1 s, 2 s, 4 s for \<open>n = 3\<close>); a failure that is not a rate-limit
  error is thrown at once, with no further wait or attempt; after four rate-limit
  failures there is no fifth attempt, and the error thrown is the rate-limit-exceeded error
  when the fourth failure is an \<^verbatim>\<open>Error\<close> whose message has no authentication marker.
\<close>

theorem detect_retry_policy:
  "attempts (detectClothingItems key gemini url) \<le> 4
   \<and> slept (detectClothingItems key gemini url)
       = backoff (attempts (detectClothingItems key gemini url) - 1)
   \<and> (\<forall>k < attempts (detectClothingItems key gemini url) - 1. rate_limited gemini k)
   \<and> backoff 3 = [1000, 2000, 4000]
   \<and> (truthy key \<longrightarrow> trim url \<noteq> [] \<longrightarrow>
        (\<forall>n items. n \<le> 3 \<longrightarrow> (\<forall>k < n. rate_limited gemini k)
           \<longrightarrow> try_detect (gemini n) = Inr items
           \<longrightarrow> detectClothingItems key gemini url
                 = \<lparr>result = Inr items, slept = backoff n, attempts = n + 1\<rparr>)
      \<and> (\<forall>n error. n \<le> 3 \<longrightarrow> (\<forall>k < n. rate_limited gemini k)
           \<longrightarrow> try_detect (gemini n) = Inl error \<longrightarrow> \<not> isRateLimitError error
           \<longrightarrow> detectClothingItems key gemini url
                 = \<lparr>result = Inl (surfaced url error False), slept = backoff n,
                     attempts = n + 1\<rparr>)
      \<and> (\<forall>error. (\<forall>k < 3. rate_limited gemini k)
           \<longrightarrow> try_detect (gemini 3) = Inl error \<longrightarrow> isRateLimitError error
           \<longrightarrow> is_Error error \<longrightarrow> \<not> auth_indicated (message error)
           \<longrightarrow> detectClothingItems key gemini url
                 = \<lparr>result = Inl (new_Error (rate_limit_exceeded (message error))),
                     slept = [1000, 2000, 4000], attempts = 4\<rparr>))"
proof -
  have general: "attempts (detectClothingItems key gemini url) \<le> 4
   \<and> slept (detectClothingItems key gemini url)
       = backoff (attempts (detectClothingItems key gemini url) - 1)
   \<and> (\<forall>k < attempts (detectClothingItems key gemini url) - 1. rate_limited gemini k)"
  proof (cases "truthy key \<and> trim url \<noteq> []")
    case True
    then have eq: "detectClothingItems key gemini url = detect_loop gemini url 0 None []"
      by (simp add: detect_valid)
    from detect_loop_bounds[of 0 gemini url None "[]"] show ?thesis
      unfolding eq by (simp add: backoff_def maxRetries_def)
  next
    case False
    then show ?thesis
      by (auto simp: detectClothingItems_def backoff_def trim_def)
  qed
  have valid: "truthy key \<longrightarrow> trim url \<noteq> [] \<longrightarrow>
        (\<forall>n items. n \<le> 3 \<longrightarrow> (\<forall>k < n. rate_limited gemini k)
           \<longrightarrow> try_detect (gemini n) = Inr items
           \<longrightarrow> detectClothingItems key gemini url
                 = \<lparr>result = Inr items, slept = backoff n, attempts = n + 1\<rparr>)
      \<and> (\<forall>n error. n \<le> 3 \<longrightarrow> (\<forall>k < n. rate_limited gemini k)
           \<longrightarrow> try_detect (gemini n) = Inl error \<longrightarrow> \<not> isRateLimitError error
           \<longrightarrow> detectClothingItems key gemini url
                 = \<lparr>result = Inl (surfaced url error False), slept = backoff n,
                     attempts = n + 1\<rparr>)
      \<and> (\<forall>error. (\<forall>k < 3. rate_limited gemini k)
           \<longrightarrow> try_detect (gemini 3) = Inl error \<longrightarrow> isRateLimitError error
           \<longrightarrow> is_Error error \<longrightarrow> \<not> auth_indicated (message error)
           \<longrightarrow> detectClothingItems key gemini url
                 = \<lparr>result = Inl (new_Error (rate_limit_exceeded (message error))),
                     slept = [1000, 2000, 4000], attempts = 4\<rparr>)"
  proof (intro impI conjI allI)
    fix n items
    assume v: "truthy key" "trim url \<noteq> []" and n: "n \<le> 3" "\<forall>k < n. rate_limited gemini k"
      and ok: "try_detect (gemini n) = Inr items"
    from n have n': "n \<le> maxRetries" by (simp add: maxRetries_def)
    from detect_loop_from_0[OF n' n(2)] obtain le where
      "detect_loop gemini url 0 None [] = detect_loop gemini url n le (backoff n)"
      by blast
    with detect_loop_success[where gemini = gemini and attempt = n, OF n' ok] v
    show "detectClothingItems key gemini url
        = \<lparr>result = Inr items, slept = backoff n, attempts = n + 1\<rparr>"
      by (simp add: detect_valid)
  next
    fix n error
    assume v: "truthy key" "trim url \<noteq> []" and n: "n \<le> 3" "\<forall>k < n. rate_limited gemini k"
      and err: "try_detect (gemini n) = Inl error" "\<not> isRateLimitError error"
    from n have n': "n \<le> maxRetries" by (simp add: maxRetries_def)
    from detect_loop_from_0[OF n' n(2)] obtain le where
      "detect_loop gemini url 0 None [] = detect_loop gemini url n le (backoff n)"
      by blast
    with detect_loop_not_rate_limit[where gemini = gemini and attempt = n, OF n' err] v
    show "detectClothingItems key gemini url
        = \<lparr>result = Inl (surfaced url error False), slept = backoff n, attempts = n + 1\<rparr>"
      by (simp add: detect_valid)
  next
    fix error
    assume v: "truthy key" "trim url \<noteq> []" and n: "\<forall>k < 3. rate_limited gemini k"
      and err: "try_detect (gemini 3) = Inl error" "isRateLimitError error"
      and e: "is_Error error" "\<not> auth_indicated (message error)"
    have n': "3 \<le> maxRetries" by (simp add: maxRetries_def)
    from detect_loop_from_0[OF n' n] obtain le where
      "detect_loop gemini url 0 None [] = detect_loop gemini url 3 le (backoff 3)"
      by blast
    moreover from err have "try_detect (gemini maxRetries) = Inl error"
      by (simp add: maxRetries_def)
    from detect_loop_exhausted[where gemini = gemini, OF this err(2), of url le "backoff 3"]
    have "detect_loop gemini url 3 le (backoff 3)
      = \<lparr>result = Inl (surfaced url error True), slept = backoff 3, attempts = 4\<rparr>"
      by (simp add: maxRetries_def)
    ultimately show "detectClothingItems key gemini url
        = \<lparr>result = Inl (new_Error (rate_limit_exceeded (message error))),
            slept = [1000, 2000, 4000], attempts = 4\<rparr>"
      using v e by (simp add: detect_valid surfaced_rate_limit backoff_3)
  qed
  from general valid backoff_3 show ?thesis by blast
qed

lemma test_url_valid: "trim test_url \<noteq> []"
  by (simp add: test_url_def trim_def is_space_def)

lemma key_valid: "truthy (Some ''key'')"
  by (simp add: truthy_def)

lemma rate_limit_errors:
  "isRateLimitError (new_Error ''429 Too Many Requests'')"
  "isRateLimitError resource_exhausted_error"
  "isRateLimitError quota_with_key_error"
  "isRateLimitError status_429_object"
  "\<not> isRateLimitError (new_Error ''boom'')"
  by (simp_all add: isRateLimitError_def new_Error_def quota_with_key_error_def
      status_429_object_def resource_exhausted_error_def toLowerCase_def lower_char_def)

lemma always_throws_rate_limited:
  "isRateLimitError e \<Longrightarrow> rate_limited (always_throws e) k"
  by (simp add: rate_limited_def always_throws_def try_detect_def)

lemma always_throws_exhausted:
  assumes e: "isRateLimitError e"
  shows "detectClothingItems (Some ''key'') (always_throws e) test_url
        = \<lparr>result = Inl (surfaced test_url e True), slept = [1000, 2000, 4000], attempts = 4\<rparr>"
proof -
  have "3 \<le> maxRetries" by (simp add: maxRetries_def)
  from detect_loop_from_0[OF this, of "always_throws e" test_url] always_throws_rate_limited[OF e]
  obtain le where "detect_loop (always_throws e) test_url 0 None []
      = detect_loop (always_throws e) test_url 3 le (backoff 3)"
    by blast
  moreover have "try_detect (always_throws e maxRetries) = Inl e"
    by (simp add: always_throws_def try_detect_def)
  from detect_loop_exhausted[where gemini = "always_throws e", OF this e, of test_url le "backoff 3"]
  have "detect_loop (always_throws e) test_url 3 le (backoff 3)
      = \<lparr>result = Inl (surfaced test_url e True), slept = backoff 3, attempts = 4\<rparr>"
    by (simp add: maxRetries_def)
  ultimately show ?thesis
    by (simp add: detect_valid[OF key_valid test_url_valid] backoff_3)
qed

text \<open>
  Against C2 as stated: four failures that are all rate-limit errors, after which the error
  thrown is not the rate-limit-exceeded error. For an \<^verbatim>\<open>Error\<close> whose message also has
  an authentication marker it is the authentication error; for a thrown object that is not
  an \<^verbatim>\<open>Error\<close> it is the generic detection failure.
\<close>

theorem exhausted_not_rate_limit_exceeded_counterexample:
  "isRateLimitError quota_with_key_error
   \<and> detectClothingItems (Some ''key'') (always_throws quota_with_key_error) test_url
       = \<lparr>result = Inl (new_Error (authentication_failed (message quota_with_key_error))),
           slept = [1000, 2000, 4000], attempts = 4\<rparr>
   \<and> authentication_failed (message quota_with_key_error)
       \<noteq> rate_limit_exceeded (message quota_with_key_error)
   \<and> isRateLimitError status_429_object
   \<and> detectClothingItems (Some ''key'') (always_throws status_429_object) test_url
       = \<lparr>result = Inl (new_Error ''Failed to detect clothing items in image: [object Object]''),
           slept = [1000, 2000, 4000], attempts = 4\<rparr>"
proof -
  have s1: "surfaced test_url quota_with_key_error True
      = new_Error (authentication_failed (message quota_with_key_error))"
    by (simp add: surfaced_def quota_with_key_error_def new_Error_def)
  have s2: "surfaced test_url status_429_object True
      = new_Error ''Failed to detect clothing items in image: [object Object]''"
    by (simp add: surfaced_def status_429_object_def)
  have ne: "authentication_failed (message quota_with_key_error)
       \<noteq> rate_limit_exceeded (message quota_with_key_error)"
    by (simp add: authentication_failed_def rate_limit_exceeded_def)
  from always_throws_exhausted[OF rate_limit_errors(3)]
    always_throws_exhausted[OF rate_limit_errors(4)] s1 s2 ne rate_limit_errors
  show ?thesis by simp
qed

text \<open>
  Three rate-limit failures and a success; four rate-limit failures; a failure of another
  kind at the first attempt.
\<close>

theorem detect_retry_policy_witness:
  "detectClothingItems (Some ''key'')
      (throws_then 3 (new_Error ''429 Too Many Requests'') (Items [Some (test_item 0.9)]))
      test_url
     = \<lparr>result = Inr [test_item 0.9], slept = [1000, 2000, 4000], attempts = 4\<rparr>
   \<and> detectClothingItems (Some ''key'') (always_throws (new_Error ''429 Too Many Requests'')) test_url
     = \<lparr>result = Inl (new_Error (rate_limit_exceeded ''429 Too Many Requests'')),
         slept = [1000, 2000, 4000], attempts = 4\<rparr>
   \<and> detectClothingItems (Some ''key'') (always_throws (new_Error ''boom'')) test_url
     = \<lparr>result = Inl (new_Error ''Failed to detect clothing items in image: boom''),
         slept = [], attempts = 1\<rparr>"
proof -
  let ?rl = "new_Error ''429 Too Many Requests''"
  let ?g1 = "throws_then 3 ?rl (Items [Some (test_item 0.9)])"
  let ?g2 = "always_throws ?rl"
  let ?g3 = "always_throws (new_Error ''boom'')"
  have keep: "keep_item (test_item 0.9)"
    by (simp add: keep_item_def test_item_def truthy_def)
  have g1: "\<forall>k < 3. rate_limited ?g1 k" "try_detect (?g1 3) = Inr [test_item 0.9]"
    by (simp_all add: rate_limited_def throws_then_def try_detect_def rate_limit_errors keep)
  have g2: "\<forall>k < 3. rate_limited ?g2 k" "try_detect (?g2 3) = Inl ?rl"
    by (simp_all add: always_throws_rate_limited rate_limit_errors)
       (simp add: always_throws_def try_detect_def)
  have e2: "is_Error ?rl" "\<not> auth_indicated (message ?rl)"
    "message ?rl = ''429 Too Many Requests''"
    by (simp_all add: new_Error_def auth_indicated_def)
  have g3: "\<forall>k < 0. rate_limited ?g3 k" "try_detect (?g3 0) = Inl (new_Error ''boom'')"
    "surfaced test_url (new_Error ''boom'') False
       = new_Error ''Failed to detect clothing items in image: boom''"
    by (simp_all add: always_throws_def try_detect_def surfaced_def new_Error_def)
  from detect_retry_policy[of "Some ''key''" ?g1 test_url] key_valid test_url_valid g1
  have r1: "detectClothingItems (Some ''key'') ?g1 test_url
     = \<lparr>result = Inr [test_item 0.9], slept = backoff 3, attempts = 3 + 1\<rparr>"
    by blast
  from detect_retry_policy[of "Some ''key''" ?g2 test_url] key_valid test_url_valid g2 e2(1,2)
    rate_limit_errors(1)
  have r2: "detectClothingItems (Some ''key'') ?g2 test_url
     = \<lparr>result = Inl (new_Error (rate_limit_exceeded (message ?rl))),
         slept = [1000, 2000, 4000], attempts = 4\<rparr>"
    by blast
  from detect_retry_policy[of "Some ''key''" ?g3 test_url] key_valid test_url_valid g3(1,2)
    rate_limit_errors(5)
  have r3: "detectClothingItems (Some ''key'') ?g3 test_url
     = \<lparr>result = Inl (surfaced test_url (new_Error ''boom'') False), slept = backoff 0,
         attempts = 0 + 1\<rparr>"
    by blast
  from r1 r2 r3 show ?thesis
    by (simp add: backoff_3 backoff_0 e2(3) g3(3))
qed

text \<open>
  C5. The rate-limit-exceeded error thrown after the retries are exhausted should carry the
  number of attempts and the last message. At four failures with the message "Resource has
  been exhausted (e.g. check quota)." the error thrown carries that message but no attempt
  count: it is the message of line 167, not that of line 191, and no 4 occurs in it.
\<close>

theorem exhausted_error_omits_attempt_count:
  "detectClothingItems (Some ''key'') (always_throws resource_exhausted_error) test_url
     = \<lparr>result = Inl (new_Error (rate_limit_exceeded (message resource_exhausted_error))),
         slept = [1000, 2000, 4000], attempts = 4\<rparr>
   \<and> rate_limit_exceeded (message resource_exhausted_error)
       \<noteq> rate_limit_exceeded_after 4 (message resource_exhausted_error)
   \<and> \<not> String_includes (rate_limit_exceeded (message resource_exhausted_error)) (decimal 4)"
proof -
  have m: "message resource_exhausted_error = ''Resource has been exhausted (e.g. check quota).''"
    by (simp add: resource_exhausted_error_def new_Error_def)
  have s: "surfaced test_url resource_exhausted_error True
      = new_Error (rate_limit_exceeded (message resource_exhausted_error))"
    by (simp add: surfaced_def resource_exhausted_error_def new_Error_def)
  have ne: "rate_limit_exceeded (message resource_exhausted_error)
       \<noteq> rate_limit_exceeded_after 4 (message resource_exhausted_error)"
    by (simp add: rate_limit_exceeded_def rate_limit_exceeded_after_def)
  have no4: "\<not> String_includes (rate_limit_exceeded (message resource_exhausted_error))
      (decimal 4)"
    by (simp add: rate_limit_exceeded_def decimal_small m)
  from always_throws_exhausted[OF rate_limit_errors(2)] s ne no4 show ?thesis by simp
qed

lemma keep_item_iff:
  "keep_item item \<longleftrightarrow>
     (\<exists>d. det_description item = Some d \<and> d \<noteq> [])
   \<and> (\<exists>c. det_category item = Some c \<and> c \<noteq> [])
   \<and> (\<exists>b. bounding_box item = Some b)
   \<and> (\<exists>c. confidence item = Some c \<and> c > 0.5)"
  by (auto simp: keep_item_def truthy_def split: option.splits)

lemma filter_items_objects: "filter_items (map Some objects) = Inr (filter keep_item objects)"
  by (induction objects) simp_all

lemma filter_items_null: "None \<in> set items \<Longrightarrow> filter_items items = Inl null_item_error"
proof (induction items)
  case Nil
  then show ?case by simp
next
  case (Cons a items)
  then show ?case by (cases a) (auto split: sum.splits)
qed

lemma null_item_error_surfaced:
  "\<not> isRateLimitError null_item_error"
  "surfaced url null_item_error False
     = new_Error (''Failed to detect clothing items in image: '' @ message null_item_error)"
  by (simp_all add: isRateLimitError_def surfaced_def null_item_error_def new_Error_def
      toLowerCase_def lower_char_def)

text \<open>
  Against C6 as stated: a response whose array holds an item that passes every test, followed
  by \<^verbatim>\<open>null\<close>. The callback throws on the second element and the call ends with an
  error; no sequence is returned and the first item is not retained.
\<close>

theorem null_item_counterexample:
  "keep_item (test_item 0.9)
   \<and> detectClothingItems (Some ''key'')
        (throws_then 0 resource_exhausted_error (Items [Some (test_item 0.9), None])) test_url
     = \<lparr>result = Inl (new_Error
            (''Failed to detect clothing items in image: '' @ message null_item_error)),
         slept = [], attempts = 1\<rparr>"
proof -
  let ?g = "throws_then 0 resource_exhausted_error (Items [Some (test_item 0.9), None])"
  have k: "keep_item (test_item 0.9)"
    by (simp add: keep_item_def test_item_def truthy_def)
  have t: "try_detect (?g 0) = Inl null_item_error"
    by (simp add: throws_then_def try_detect_def filter_items_null)
  have "0 \<le> maxRetries" by simp
  from detect_loop_not_rate_limit[where gemini = ?g and attempt = 0, OF this t
      null_item_error_surfaced(1), of test_url None "[]"]
  have "detect_loop ?g test_url 0 None []
      = \<lparr>result = Inl (surfaced test_url null_item_error False), slept = [], attempts = 1\<rparr>"
    by simp
  with k show ?thesis
    by (simp add: detect_valid[OF key_valid test_url_valid] null_item_error_surfaced(2))
qed

text \<open>
  C6, amended. An item of the response is kept exactly when its description and its category
  are present and not empty, it has a bounding box, and its confidence is a number greater
  than 0.5. With a key and a URL that pass the validation, a response whose array holds
  objects only, arriving at any of the four attempts (the attempts before it having failed
  with rate-limit errors), makes the call return the kept items in their order, after the
  waits of the retries and with no further attempt; when no item is kept the result is the
  empty list, not an error.
\<close>

theorem detect_filters_candidates:
  "(keep_item item \<longleftrightarrow>
       (\<exists>d. det_description item = Some d \<and> d \<noteq> [])
     \<and> (\<exists>c. det_category item = Some c \<and> c \<noteq> [])
     \<and> (\<exists>b. bounding_box item = Some b)
     \<and> (\<exists>c. confidence item = Some c \<and> c > 0.5))
   \<and> (truthy key \<longrightarrow> trim url \<noteq> [] \<longrightarrow> n \<le> 3 \<longrightarrow> (\<forall>k < n. rate_limited gemini k)
      \<longrightarrow> gemini n = Items (map Some objects) \<longrightarrow>
        detectClothingItems key gemini url
          = \<lparr>result = Inr (filter keep_item objects), slept = backoff n, attempts = n + 1\<rparr>
      \<and> (item \<in> set (filter keep_item objects) \<longleftrightarrow> item \<in> set objects \<and> keep_item item)
      \<and> ((\<forall>i \<in> set objects. \<not> keep_item i)
            \<longrightarrow> result (detectClothingItems key gemini url) = Inr []))"
proof -
  have run: "detectClothingItems key gemini url
          = \<lparr>result = Inr (filter keep_item objects), slept = backoff n, attempts = n + 1\<rparr>"
    if v: "truthy key" "trim url \<noteq> []" and n: "n \<le> 3" "\<forall>k < n. rate_limited gemini k"
      and g: "gemini n = Items (map Some objects)"
  proof -
    from n have n': "n \<le> maxRetries" by (simp add: maxRetries_def)
    from g have t: "try_detect (gemini n) = Inr (filter keep_item objects)"
      by (simp add: try_detect_def filter_items_objects)
    from detect_loop_from_0[OF n' n(2)] obtain le where
      "detect_loop gemini url 0 None [] = detect_loop gemini url n le (backoff n)"
      by blast
    with detect_loop_success[where gemini = gemini and attempt = n, OF n' t] v
    show ?thesis by (simp add: detect_valid)
  qed
  have empty: "filter keep_item objects = []" if "\<forall>i \<in> set objects. \<not> keep_item i"
    using that by (simp add: filter_empty_conv)
  from run empty keep_item_iff[of item] show ?thesis by auto
qed

text \<open>
  Confidences 0.9, 0.3, 0.6 at the first attempt and at the third attempt, after two
  rate-limit failures; then confidences 0.3, 0.5.
\<close>

theorem detect_filters_candidates_witness:
  "detectClothingItems (Some ''key'')
      (throws_then 0 resource_exhausted_error
         (Items [Some (test_item 0.9), Some (test_item 0.3), Some (test_item 0.6)]))
      test_url
     = \<lparr>result = Inr [test_item 0.9, test_item 0.6], slept = [], attempts = 1\<rparr>
   \<and> detectClothingItems (Some ''key'')
      (throws_then 2 resource_exhausted_error
         (Items [Some (test_item 0.9), Some (test_item 0.3), Some (test_item 0.6)]))
      test_url
     = \<lparr>result = Inr [test_item 0.9, test_item 0.6], slept = [1000, 2000], attempts = 3\<rparr>
   \<and> result (detectClothingItems (Some ''key'')
      (throws_then 0 resource_exhausted_error (Items [Some (test_item 0.3), Some (test_item 0.5)]))
      test_url)
     = Inr []"
proof -
  let ?a = "[test_item 0.9, test_item 0.3, test_item 0.6]"
  let ?b = "[test_item 0.3, test_item 0.5]"
  let ?ga = "throws_then 0 resource_exhausted_error (Items (map Some ?a))"
  let ?gr = "throws_then 2 resource_exhausted_error (Items (map Some ?a))"
  let ?gb = "throws_then 0 resource_exhausted_error (Items (map Some ?b))"
  have fa: "filter keep_item ?a = [test_item 0.9, test_item 0.6]"
    and fb: "\<forall>i \<in> set ?b. \<not> keep_item i"
    by (simp_all add: keep_item_def test_item_def truthy_def)
  have ga: "?ga 0 = Items (map Some ?a)" and gr: "?gr 2 = Items (map Some ?a)"
    and gb: "?gb 0 = Items (map Some ?b)"
    by (simp_all add: throws_then_def)
  have rl0: "\<forall>k < 0. rate_limited g k" for g by simp
  have rl2: "\<forall>k < 2. rate_limited ?gr k"
    by (simp add: rate_limited_def throws_then_def try_detect_def rate_limit_errors)
  have b2: "backoff 2 = [1000, 2000]" by (simp add: backoff_def upt_rec)
  from detect_filters_candidates[where key = "Some ''key''" and url = test_url and n = 0
      and gemini = ?ga and objects = ?a] key_valid test_url_valid ga rl0
  have "detectClothingItems (Some ''key'') ?ga test_url
          = \<lparr>result = Inr (filter keep_item ?a), slept = backoff 0, attempts = 0 + 1\<rparr>"
    by blast
  then have ra: "detectClothingItems (Some ''key'') ?ga test_url
     = \<lparr>result = Inr [test_item 0.9, test_item 0.6], slept = [], attempts = 1\<rparr>"
    by (simp only: fa backoff_0) simp
  have two: "(2::nat) \<le> 3" by simp
  from detect_filters_candidates[where key = "Some ''key''" and url = test_url and n = 2
      and gemini = ?gr and objects = ?a] key_valid test_url_valid gr rl2 two
  have "detectClothingItems (Some ''key'') ?gr test_url
          = \<lparr>result = Inr (filter keep_item ?a), slept = backoff 2, attempts = 2 + 1\<rparr>"
    by blast
  then have rr: "detectClothingItems (Some ''key'') ?gr test_url
     = \<lparr>result = Inr [test_item 0.9, test_item 0.6], slept = [1000, 2000], attempts = 3\<rparr>"
    by (simp only: fa b2) simp
  from detect_filters_candidates[where key = "Some ''key''" and url = test_url and n = 0
      and gemini = ?gb and objects = ?b] key_valid test_url_valid gb fb rl0
  have rb: "result (detectClothingItems (Some ''key'') ?gb test_url) = Inr []"
    by blast
  from ra rr rb show ?thesis by simp
qed

section \<open>Properties of processClothingItems\<close>

lemma process_loop_outcomes:
  "process_loop env userId items results db =
     (results @ fst (outcomes env userId items db), snd (outcomes env userId items db))"
proof (induction items arbitrary: results db)
  case Nil
  show ?case by simp
next
  case (Cons item rest)
  show ?case
    by (cases "try_item env userId item db") (auto simp: Cons.IH split: sum.splits)
qed

lemma processClothingItems_unfold:
  "createServiceClient env = None \<Longrightarrow>
   processClothingItems env userId items db
     = (Inr (fst (outcomes env userId items db)), snd (outcomes env userId items db))"
  by (simp add: processClothingItems_def process_loop_outcomes split_beta)

lemma outcomes_length: "length (fst (outcomes env userId items db)) = length items"
  by (induction items arbitrary: db) simp_all

lemma outcomes_nth:
  "i < length items \<Longrightarrow>
   fst (outcomes env userId items db) ! i
     = outcome_of (fst (try_item env userId (items ! i)
         (snd (outcomes env userId (take i items) db))))"
proof (induction items arbitrary: i db)
  case Nil
  then show ?case by simp
next
  case (Cons a items)
  show ?case
  proof (cases i)
    case 0
    then show ?thesis by simp
  next
    case (Suc j)
    with Cons.prems have "j < length items" by simp
    from Cons.IH[OF this] Suc show ?thesis by simp
  qed
qed

text \<open>
  C3. Once the service client exists, \<open>processClothingItems\<close> returns one outcome per input
  item, in the order of the input: outcome \<open>i\<close> is what item \<open>i\<close> produced against the table
  left by the items before it. When the \<^verbatim>\<open>try\<close> block of an item throws, its outcome is
  the failure record (empty id, \<open>merged = False\<close>) and the loop goes on with the next item;
  the call itself returns normally.
\<close>

theorem processClothingItems_outcomes:
  assumes "createServiceClient env = None"
  shows "\<exists>results db'.
     processClothingItems env userId items db = (Inr results, db')
   \<and> length results = length items
   \<and> (\<forall>i < length items.
        (case fst (try_item env userId (items ! i)
                    (snd (processClothingItems env userId (take i items) db))) of
           Inl error \<Rightarrow>
             results ! i
               = \<lparr>result_id = [], merged = False, existing_item_id = None, imageAdded = None\<rparr>
         | Inr r \<Rightarrow> results ! i = r))"
  unfolding processClothingItems_unfold[OF assms]
  by (auto simp: outcomes_length outcomes_nth failed_item_def split: sum.splits)

lemma test_env_client: "createServiceClient test_env = None"
  by (simp add: createServiceClient_def test_env_def truthy_def)

lemma try_item_fetch_fails:
  "fetch (images env) (imageUrl item) = None \<Longrightarrow>
   try_item env userId item db = (Inl hash_failure, db)"
  by (simp add: try_item_def generatePerceptualHash_def)

lemma test_hash:
  "url \<noteq> [] \<Longrightarrow> generatePerceptualHash (images test_env) url None = Inr ''01100110''"
  by (simp add: generatePerceptualHash_def test_env_def test_image_env_def sharp_metadata_def
      hash_test)

lemma try_item_test_create:
  "try_item test_env ''user'' (test_input ''u'') []
     = (Inr \<lparr>result_id = ''item-0'', merged = False, existing_item_id = None, imageAdded = None\<rparr>,
        [\<lparr>item_id = ''item-0'', user_id = ''user'',
          image_urls = Some \<lparr>primary = ''u'', variants = Some []\<rparr>,
          perceptual_hash = Some ''01100110'', ai_metadata = Some test_metadata,
          updated_at = ''2024-01-01T00:00:00.000Z''\<rparr>])"
  by (simp add: try_item_def test_hash test_input_def)
     (simp add: test_env_def decimal_small)

text \<open>
  Two candidates, the first of which cannot be fetched: a failure record, then the new item.
\<close>

theorem processClothingItems_outcomes_witness:
  "createServiceClient test_env = None
   \<and> fst (processClothingItems test_env ''user'' [test_input [], test_input ''u''] [])
       = Inr [\<lparr>result_id = [], merged = False, existing_item_id = None, imageAdded = None\<rparr>,
              \<lparr>result_id = ''item-0'', merged = False, existing_item_id = None,
                 imageAdded = None\<rparr>]"
proof -
  let ?items = "[test_input [], test_input ''u'']"
  have first: "try_item test_env ''user'' (test_input []) [] = (Inl hash_failure, [])"
    by (rule try_item_fetch_fails) (simp add: test_env_def test_image_env_def test_input_def)
  have st0: "snd (processClothingItems test_env ''user'' (take 0 ?items) []) = []"
    by (simp add: processClothingItems_unfold[OF test_env_client])
  have st1: "snd (processClothingItems test_env ''user'' (take 1 ?items) []) = []"
    by (simp add: processClothingItems_unfold[OF test_env_client] first)
  from processClothingItems_outcomes[OF test_env_client, of "''user''" ?items "[]"]
  obtain results db' where
    run: "processClothingItems test_env ''user'' ?items [] = (Inr results, db')"
    and len: "length results = length ?items"
    and each: "\<forall>i < length ?items.
        (case fst (try_item test_env ''user'' (?items ! i)
                    (snd (processClothingItems test_env ''user'' (take i ?items) []))) of
           Inl error \<Rightarrow>
             results ! i
               = \<lparr>result_id = [], merged = False, existing_item_id = None, imageAdded = None\<rparr>
         | Inr r \<Rightarrow> results ! i = r)"
    by blast
  from each[rule_format, of 0] st0 first
  have r0: "results ! 0
     = \<lparr>result_id = [], merged = False, existing_item_id = None, imageAdded = None\<rparr>"
    by simp
  from each[rule_format, of 1] st1 try_item_test_create
  have r1: "results ! 1
     = \<lparr>result_id = ''item-0'', merged = False, existing_item_id = None, imageAdded = None\<rparr>"
    by simp
  from len have "results = [results ! 0, results ! 1]"
    by (cases results; cases "tl results"; cases "tl (tl results)") auto
  with r0 r1 run test_env_client show ?thesis by simp
qed

section \<open>Properties of mergeItem\<close>

lemma Set_add_all_props:
  "distinct entries \<Longrightarrow>
   distinct (Set_add_all xs entries) \<and> set (Set_add_all xs entries) = set entries \<union> set xs"
  by (induction xs arbitrary: entries) auto

lemma Array_from_Set_props:
  "distinct (Array_from_Set xs) \<and> set (Array_from_Set xs) = set xs"
  using Set_add_all_props[of "[]" xs] by (simp add: Array_from_Set_def)

lemma indexOf_notin: "v \<notin> set a \<Longrightarrow> indexOf a v = - 1"
  by (induction a) (auto simp: Let_def)

lemma indexOf_in:
  "v \<in> set a \<Longrightarrow> 0 \<le> indexOf a v \<and> nat (indexOf a v) < length a \<and> a ! nat (indexOf a v) = v"
proof (induction a)
  case Nil
  then show ?case by simp
next
  case (Cons x xs)
  show ?case
  proof (cases "x = v")
    case True
    then show ?thesis by simp
  next
    case False
    with Cons.prems have "v \<in> set xs" by simp
    from Cons.IH[OF this] False show ?thesis
      by (simp add: Let_def nat_add_distrib)
  qed
qed

lemma filter_first_index_set: "set (filter_first_index a) = set a"
proof
  show "set (filter_first_index a) \<subseteq> set a"
    by (auto simp: filter_first_index_def dest: set_zip_leftD)
  show "set a \<subseteq> set (filter_first_index a)"
  proof
    fix v assume "v \<in> set a"
    from indexOf_in[OF this] obtain i where
      i: "i < length a" "a ! i = v" "indexOf a v = int i"
      by (metis int_nat_eq)
    then have "(v, i) \<in> set (zip a [0 ..< length a])"
      by (auto simp: set_zip)
    with i show "v \<in> set (filter_first_index a)"
      by (force simp: filter_first_index_def)
  qed
qed

lemma filter_first_index_distinct: "distinct (filter_first_index a)"
proof -
  let ?P = "\<lambda>(v, i). indexOf a v = int i"
  have d: "distinct (filter ?P (zip a [0 ..< length a]))"
    by (intro distinct_filter distinct_zipI2) simp
  have "inj_on fst (set (filter ?P (zip a [0 ..< length a])))"
    by (auto simp: inj_on_def)
  with d show ?thesis
    by (simp add: filter_first_index_def distinct_map)
qed

lemma single_Some: "single xs = Some r \<longleftrightarrow> xs = [r]"
  by (cases xs rule: single.cases) auto

lemma single_map: "single (map f xs) = map_option f (single xs)"
  by (cases xs rule: single.cases) auto

lemma merged_image_urls_variants:
  "variants (merged_image_urls existingItem newImageUrl)
     = Some (variants_of existingItem @ [newImageUrl])"
  by (simp add: merged_image_urls_def variants_of_def or_empty_def Let_def
      split: option.splits)

lemma merged_image_urls_primary:
  "image_urls existingItem = Some u \<Longrightarrow>
   primary (merged_image_urls existingItem newImageUrl) = primary u"
  by (simp add: merged_image_urls_def Let_def)

lemma mergeItem_alt:
  "mergeItem env db existingItemId newImageUrl userId =
     (case single (filter (\<lambda>r. item_id r = existingItemId \<and> user_id r = userId) db) of
        None \<Rightarrow> (Inl (new_Error ''Existing item not found''), db)
      | Some existingItem \<Rightarrow>
          (case analyzeClothingImage env newImageUrl None of
             Inl error \<Rightarrow> (Inl error, db)
           | Inr newMetadata \<Rightarrow>
               if db_update_error env db existingItemId
               then (Inl (new_Error ''Failed to merge item''), db)
               else (case single (filter (\<lambda>r. item_id r = existingItemId)
                       (map (\<lambda>r. if item_id r = existingItemId
                                 then merge_patch env existingItem newImageUrl newMetadata r
                                 else r) db)) of
                       None \<Rightarrow> (Inl (new_Error ''Failed to merge item''), db)
                     | Some updatedItem \<Rightarrow>
                         (Inr updatedItem,
                          map (\<lambda>r. if item_id r = existingItemId
                                 then merge_patch env existingItem newImageUrl newMetadata r
                                 else r) db))))"
  unfolding mergeItem_def merge_patch_def Let_def ..

lemma filter_patched:
  "(\<And>r. item_id (f r) = item_id r) \<Longrightarrow>
   filter (\<lambda>r. item_id r = k) (map (\<lambda>r. if item_id r = k then f r else r) db)
     = map f (filter (\<lambda>r. item_id r = k) db)"
  by (induction db) auto

lemma merge_patch_id: "item_id (merge_patch env e u m r) = item_id r"
  by (simp add: merge_patch_def)

lemma mergeItem_success:
  assumes "mergeItem env db existingItemId newImageUrl userId = (Inr updatedItem, db')"
  shows "\<exists>existingItem newMetadata.
           existingItem \<in> set db \<and> item_id existingItem = existingItemId
         \<and> user_id existingItem = userId
         \<and> analyzeClothingImage env newImageUrl None = Inr newMetadata
         \<and> updatedItem = merge_patch env existingItem newImageUrl newMetadata existingItem
         \<and> db' = map (\<lambda>r. if item_id r = existingItemId
                           then merge_patch env existingItem newImageUrl newMetadata r else r) db
         \<and> updatedItem \<in> set db'"
proof -
  from assms obtain existingItem where
    sel: "single (filter (\<lambda>r. item_id r = existingItemId \<and> user_id r = userId) db)
            = Some existingItem"
    by (auto simp: mergeItem_alt split: option.splits)
  then have "filter (\<lambda>r. item_id r = existingItemId \<and> user_id r = userId) db = [existingItem]"
    by (simp add: single_Some)
  then have "existingItem \<in> set (filter (\<lambda>r. item_id r = existingItemId \<and> user_id r = userId) db)"
    by simp
  then have ex: "existingItem \<in> set db" "item_id existingItem = existingItemId"
    "user_id existingItem = userId"
    by auto
  from assms sel obtain newMetadata where
    an: "analyzeClothingImage env newImageUrl None = Inr newMetadata"
    by (auto simp: mergeItem_alt split: sum.splits)
  let ?patch = "merge_patch env existingItem newImageUrl newMetadata"
  let ?db' = "map (\<lambda>r. if item_id r = existingItemId then ?patch r else r) db"
  from assms sel an have
    upd: "single (filter (\<lambda>r. item_id r = existingItemId) ?db') = Some updatedItem"
    and db': "db' = ?db'"
    by (auto simp: mergeItem_alt split: if_splits option.splits)
  have "filter (\<lambda>r. item_id r = existingItemId) ?db'
          = map ?patch (filter (\<lambda>r. item_id r = existingItemId) db)"
    by (rule filter_patched) (rule merge_patch_id)
  with upd obtain x where x: "filter (\<lambda>r. item_id r = existingItemId) db = [x]"
    "updatedItem = ?patch x"
    by (auto simp: single_map single_Some)
  from ex have "existingItem \<in> set (filter (\<lambda>r. item_id r = existingItemId) db)" by simp
  with x have "x = existingItem" by simp
  with x have u: "updatedItem = ?patch existingItem" by simp
  from ex have "?patch existingItem \<in> set ?db'"
    by (auto simp: image_iff intro!: bexI[of _ existingItem])
  with ex an u db' show ?thesis by blast
qed

lemma mergeItem_db:
  "snd (mergeItem env db existingItemId newImageUrl userId) = db
   \<or> (\<exists>existingItem newMetadata. existingItem \<in> set db
        \<and> snd (mergeItem env db existingItemId newImageUrl userId)
            = map (\<lambda>r. if item_id r = existingItemId
                        then merge_patch env existingItem newImageUrl newMetadata r else r) db)"
proof (cases "mergeItem env db existingItemId newImageUrl userId")
  case (Pair res db')
  show ?thesis
  proof (cases res)
    case (Inl e)
    with Pair have "db' = db"
      by (auto simp: mergeItem_alt split: option.splits sum.splits if_splits)
    with Pair show ?thesis by simp
  next
    case (Inr u)
    from mergeItem_success[OF Pair[unfolded Inr]] Pair show ?thesis by auto
  qed
qed

lemma primary_set_patch:
  "primary_set existingItem \<Longrightarrow> primary_set (merge_patch env existingItem u m r)"
  by (auto simp: primary_set_def merge_patch_def merged_image_urls_primary split: option.splits)

lemma mergeItem_inv:
  assumes "\<forall>r \<in> set db. primary_set r"
  shows "\<forall>r \<in> set (snd (mergeItem env db existingItemId newImageUrl userId)). primary_set r"
  using mergeItem_db[of env db existingItemId newImageUrl userId] assms
  by (auto simp: primary_set_patch)

lemma try_item_db:
  "snd (try_item env userId item db) = db
   \<or> (\<exists>k. snd (try_item env userId item db) = snd (mergeItem env db k (imageUrl item) userId))
   \<or> (\<exists>h m. generatePerceptualHash (images env) (imageUrl item) (boundingBox item) = Inr h
         \<and> snd (try_item env userId item db)
             = db @ [\<lparr>item_id = new_id env db, user_id = userId,
                      image_urls = Some \<lparr>primary = imageUrl item, variants = Some []\<rparr>,
                      perceptual_hash = Some h, ai_metadata = Some m, updated_at = now env\<rparr>])"
proof (cases "generatePerceptualHash (images env) (imageUrl item) (boundingBox item)")
  case (Inl e)
  then show ?thesis by (simp add: try_item_def)
next
  case (Inr h)
  show ?thesis
  proof (cases "single (filter (\<lambda>r. user_id r = userId \<and> perceptual_hash r = Some h) db)")
    case None
    with Inr show ?thesis
      by (auto simp: try_item_def Let_def split: sum.splits option.splits)
  next
    case (Some exactMatch)
    with Inr have "snd (try_item env userId item db)
        = snd (mergeItem env db (item_id exactMatch) (imageUrl item) userId)"
      by (simp add: try_item_def split: prod.splits sum.splits)
    then show ?thesis by blast
  qed
qed

lemma hash_empty_url:
  "fetch env [] = None \<Longrightarrow> generatePerceptualHash env [] bb = Inl hash_failure"
  by (simp add: generatePerceptualHash_def)

lemma try_item_inv:
  assumes "\<forall>r \<in> set db. primary_set r"
    and "imageUrl item \<noteq> [] \<or> fetch (images env) [] = None"
  shows "\<forall>r \<in> set (snd (try_item env userId item db)). primary_set r"
proof -
  from try_item_db[of env userId item db]
  consider "snd (try_item env userId item db) = db"
    | k where "snd (try_item env userId item db) = snd (mergeItem env db k (imageUrl item) userId)"
    | h m where "generatePerceptualHash (images env) (imageUrl item) (boundingBox item) = Inr h"
        "snd (try_item env userId item db)
             = db @ [\<lparr>item_id = new_id env db, user_id = userId,
                      image_urls = Some \<lparr>primary = imageUrl item, variants = Some []\<rparr>,
                      perceptual_hash = Some h, ai_metadata = Some m, updated_at = now env\<rparr>]"
    by blast
  then show ?thesis
  proof cases
    case 1
    with assms show ?thesis by simp
  next
    case 2
    with mergeItem_inv[OF assms(1)] show ?thesis by simp
  next
    case 3
    with assms(2) have "imageUrl item \<noteq> []"
      by (auto simp: hash_empty_url)
    with 3 assms(1) show ?thesis by (auto simp: primary_set_def)
  qed
qed

lemma outcomes_inv:
  "\<forall>r \<in> set db. primary_set r \<Longrightarrow>
   \<forall>item \<in> set items. imageUrl item \<noteq> [] \<or> fetch (images env) [] = None \<Longrightarrow>
   \<forall>r \<in> set (snd (outcomes env userId items db)). primary_set r"
proof (induction items arbitrary: db)
  case Nil
  then show ?case by simp
next
  case (Cons item rest)
  from Cons.prems have "\<forall>r \<in> set (snd (try_item env userId item db)). primary_set r"
    by (intro try_item_inv) simp_all
  from Cons.IH[OF this] Cons.prems(2) show ?case by simp
qed

lemma mergedMetadata_test: "mergedMetadata test_metadata test_metadata = test_metadata"
  by (simp add: mergedMetadata_def test_metadata_def js_or_def spread_def or_empty_def
      Array_from_Set_def filter_first_index_def Let_def)

lemma mergeItem_test:
  "mergeItem test_env [test_row vs] ''item-0'' ''u'' ''user''
     = (Inr (test_row (vs @ [''u''])), [test_row (vs @ [''u''])])"
proof -
  have env: "analyzeClothingImage test_env ''u'' None = Inr test_metadata"
    "db_update_error test_env [test_row vs] ''item-0'' = False"
    "now test_env = ''2024-01-01T00:00:00.000Z''"
    by (simp_all add: test_env_def)
  have patch: "merge_patch test_env (test_row vs) ''u'' test_metadata (test_row vs)
      = test_row (vs @ [''u''])"
    by (simp add: merge_patch_def test_row_def merged_image_urls_def or_empty_def
        mergedMetadata_test env Let_def)
  have id: "item_id (test_row vs) = ''item-0''" "user_id (test_row vs) = ''user''"
    "item_id (test_row (vs @ [''u''])) = ''item-0''"
    by (simp_all add: test_row_def)
  show ?thesis
    by (simp add: mergeItem_alt id env patch)
qed

lemma try_item_test_merge:
  "try_item test_env ''user'' (test_input ''u'') [test_row vs]
     = (Inr \<lparr>result_id = ''item-0'', merged = True, existing_item_id = Some ''item-0'',
              imageAdded = Some True\<rparr>, [test_row (vs @ [''u''])])"
proof -
  have id: "item_id (test_row vs) = ''item-0''" "item_id (test_row (vs @ [''u''])) = ''item-0''"
    "user_id (test_row vs) = ''user''" "perceptual_hash (test_row vs) = Some ''01100110''"
    by (simp_all add: test_row_def)
  have inp: "imageUrl (test_input ''u'') = ''u''" "boundingBox (test_input ''u'') = None"
    by (simp_all add: test_input_def)
  show ?thesis
    by (simp add: try_item_def inp test_hash id mergeItem_test)
qed

lemma try_item_test_create':
  "try_item test_env ''user'' (test_input ''u'') [] = 
     (Inr \<lparr>result_id = ''item-0'', merged = False, existing_item_id = None, imageAdded = None\<rparr>,
      [test_row []])"
  by (simp add: try_item_test_create test_row_def)

text \<open>
  Against C1 as stated: the same image processed three times for one user. The first pass
  creates the item, the second and the third merge into it, and the variants then hold
  the same URL twice.
\<close>

theorem variants_duplicate_counterexample:
  "map variants_of (snd (processClothingItems test_env ''user''
        [test_input ''u'', test_input ''u'', test_input ''u''] [])) = [[''u'', ''u'']]
   \<and> \<not> distinct [''u'', ''u'']"
  by (simp add: processClothingItems_unfold[OF test_env_client] try_item_test_create'
      try_item_test_merge)
     (simp add: variants_of_def test_row_def or_empty_def)

text \<open>
  C1, amended. A merge appends the new image URL at the end of the variants of the item,
  whether or not the URL is already there: the list written back is the old list (empty
  when missing) followed by the URL, and a successful \<open>mergeItem\<close> returns and stores the
  row with that list.
\<close>

theorem mergeItem_appends_variant:
  "variants (merged_image_urls existingItem newImageUrl)
     = Some (variants_of existingItem @ [newImageUrl])
   \<and> (mergeItem env db existingItemId newImageUrl userId = (Inr updatedItem, db') \<longrightarrow>
        (\<exists>e \<in> set db. item_id e = existingItemId \<and> user_id e = userId
           \<and> updatedItem \<in> set db'
           \<and> variants_of updatedItem = variants_of e @ [newImageUrl]))"
proof (intro conjI impI)
  show "variants (merged_image_urls existingItem newImageUrl)
     = Some (variants_of existingItem @ [newImageUrl])"
    by (rule merged_image_urls_variants)
next
  assume "mergeItem env db existingItemId newImageUrl userId = (Inr updatedItem, db')"
  from mergeItem_success[OF this] obtain e m where
    e: "e \<in> set db" "item_id e = existingItemId" "user_id e = userId"
    "updatedItem = merge_patch env e newImageUrl m e" "updatedItem \<in> set db'"
    by blast
  have "variants_of (merge_patch env e newImageUrl m e) = variants_of e @ [newImageUrl]"
    by (simp add: merge_patch_def variants_of_def merged_image_urls_def or_empty_def Let_def
        split: option.splits)
  with e show "\<exists>e \<in> set db. item_id e = existingItemId \<and> user_id e = userId
           \<and> updatedItem \<in> set db'
           \<and> variants_of updatedItem = variants_of e @ [newImageUrl]"
    by blast
qed

text \<open>A merge of a URL into an item whose variants already hold it.\<close>

theorem mergeItem_appends_variant_witness:
  "mergeItem test_env [test_row [''u'']] ''item-0'' ''u'' ''user''
     = (Inr (test_row [''u'', ''u'']), [test_row [''u'', ''u'']])
   \<and> variants_of (test_row [''u'', ''u'']) = variants_of (test_row [''u'']) @ [''u'']"
proof -
  have run: "mergeItem test_env [test_row [''u'']] ''item-0'' ''u'' ''user''
     = (Inr (test_row [''u'', ''u'']), [test_row [''u'', ''u'']])"
    using mergeItem_test[of "[''u'']"] by simp
  from mergeItem_appends_variant[where env = test_env and db = "[test_row [''u'']]"
      and existingItemId = "''item-0''" and newImageUrl = "''u''" and userId = "''user''"
      and updatedItem = "test_row [''u'', ''u'']" and db' = "[test_row [''u'', ''u'']]"] run
  have "\<exists>e \<in> set [test_row [''u'']]. 
           variants_of (test_row [''u'', ''u'']) = variants_of e @ [''u'']"
    by blast
  with run show ?thesis by simp
qed

text \<open>
  Against C4 as stated: the stored season is "all-season", the new analysis has an empty
  season, and the merged season is empty.
\<close>

theorem estimated_season_counterexample:
  "estimated_season test_metadata = Some ''all-season''
   \<and> estimated_season (mergedMetadata test_metadata (test_metadata\<lparr>estimated_season := Some []\<rparr>))
       = Some []"
  by (simp add: mergedMetadata_def test_metadata_def spread_def)

text \<open>
  C4, amended. In the merged metadata, \<open>category\<close>, \<open>sub_category\<close> and \<open>primary_color\<close>
  take the new value when it is present and not empty, and the existing value otherwise;
  \<open>secondary_colors\<close> and \<open>vibe_tags\<close> are the union of the old and the new values without
  duplicates; \<open>estimated_season\<close> takes the new value whenever the new analysis has the
  field, even when it is empty, and the existing value only when the field is missing. A
  successful \<open>mergeItem\<close> stores this merge of the metadata read with the metadata analysed.
\<close>

theorem mergedMetadata_fields:
  "category (mergedMetadata existing new)
     = (if truthy (category new) then category new else category existing)
   \<and> sub_category (mergedMetadata existing new)
     = (if truthy (sub_category new) then sub_category new else sub_category existing)
   \<and> primary_color (mergedMetadata existing new)
     = (if truthy (primary_color new) then primary_color new else primary_color existing)
   \<and> (\<exists>colors. secondary_colors (mergedMetadata existing new) = Some colors \<and> distinct colors
        \<and> set colors = set (or_empty (secondary_colors existing))
                          \<union> set (or_empty (secondary_colors new)))
   \<and> (\<exists>tags. vibe_tags (mergedMetadata existing new) = Some tags \<and> distinct tags
        \<and> set tags = set (or_empty (vibe_tags existing)) \<union> set (or_empty (vibe_tags new)))
   \<and> estimated_season (mergedMetadata existing new)
     = (if estimated_season new = None then estimated_season existing
        else estimated_season new)
   \<and> (mergeItem env db existingItemId newImageUrl userId = (Inr updatedItem, db') \<longrightarrow>
        (\<exists>e \<in> set db. \<exists>newMetadata. item_id e = existingItemId
           \<and> analyzeClothingImage env newImageUrl None = Inr newMetadata
           \<and> ai_metadata updatedItem
               = Some (mergedMetadata
                    (case ai_metadata e of None \<Rightarrow> empty_metadata | Some m \<Rightarrow> m)
                    newMetadata)))"
proof -
  have scalar: "\<And>a b. js_or a b = (if truthy a then a else b)"
    by (simp add: js_or_def truthy_def split: option.split)
  have link: "mergeItem env db existingItemId newImageUrl userId = (Inr updatedItem, db') \<longrightarrow>
        (\<exists>e \<in> set db. \<exists>newMetadata. item_id e = existingItemId
           \<and> analyzeClothingImage env newImageUrl None = Inr newMetadata
           \<and> ai_metadata updatedItem
               = Some (mergedMetadata
                    (case ai_metadata e of None \<Rightarrow> empty_metadata | Some m \<Rightarrow> m)
                    newMetadata))"
  proof
    assume "mergeItem env db existingItemId newImageUrl userId = (Inr updatedItem, db')"
    from mergeItem_success[OF this] obtain e m where
      e: "e \<in> set db" "item_id e = existingItemId"
      "analyzeClothingImage env newImageUrl None = Inr m"
      "updatedItem = merge_patch env e newImageUrl m e"
      by blast
    then have "ai_metadata updatedItem = Some (mergedMetadata
        (case ai_metadata e of None \<Rightarrow> empty_metadata | Some m \<Rightarrow> m) m)"
      by (simp add: merge_patch_def)
    with e show "\<exists>e \<in> set db. \<exists>newMetadata. item_id e = existingItemId
           \<and> analyzeClothingImage env newImageUrl None = Inr newMetadata
           \<and> ai_metadata updatedItem
               = Some (mergedMetadata
                    (case ai_metadata e of None \<Rightarrow> empty_metadata | Some m \<Rightarrow> m)
                    newMetadata)"
      by blast
  qed
  have season: "estimated_season (mergedMetadata existing new)
     = (if estimated_season new = None then estimated_season existing
        else estimated_season new)"
    by (auto simp: mergedMetadata_def spread_def Let_def split: option.splits)
  show ?thesis
    using link season
    by (simp add: mergedMetadata_def Let_def scalar filter_first_index_distinct
        filter_first_index_set Array_from_Set_props)
qed

text \<open>The stored metadata of the tests merged with a partly empty analysis.\<close>

theorem mergedMetadata_fields_witness:
  "mergeItem test_env [test_row []] ''item-0'' ''u'' ''user''
     = (Inr (test_row [''u'']), [test_row [''u'']])
   \<and> ai_metadata (test_row [''u''])
     = Some (mergedMetadata (case ai_metadata (test_row []) of None \<Rightarrow> empty_metadata | Some m \<Rightarrow> m)
         test_metadata)
   \<and> category (mergedMetadata test_metadata new_test_metadata) = Some ''top''
   \<and> sub_category (mergedMetadata test_metadata new_test_metadata) = Some ''t-shirt''
   \<and> primary_color (mergedMetadata test_metadata new_test_metadata) = Some ''navy blue''
   \<and> set (or_empty (secondary_colors (mergedMetadata test_metadata new_test_metadata)))
       = {''white'', ''red''}
   \<and> set (or_empty (vibe_tags (mergedMetadata test_metadata new_test_metadata)))
       = {''casual'', ''minimalist''}
   \<and> estimated_season (mergedMetadata test_metadata new_test_metadata) = Some ''summer''"
proof -
  have run: "mergeItem test_env [test_row []] ''item-0'' ''u'' ''user''
     = (Inr (test_row [''u'']), [test_row [''u'']])"
    using mergeItem_test[of "[]"] by simp
  have an: "analyzeClothingImage test_env ''u'' None = Inr test_metadata"
    by (simp add: test_env_def)
  note f = mergedMetadata_fields[where existing = test_metadata and new = new_test_metadata
      and env = test_env and db = "[test_row []]" and existingItemId = "''item-0''"
      and newImageUrl = "''u''" and userId = "''user''" and updatedItem = "test_row [''u'']"
      and db' = "[test_row [''u'']]"]
  from f run an have link: "ai_metadata (test_row [''u''])
     = Some (mergedMetadata (case ai_metadata (test_row []) of None \<Rightarrow> empty_metadata | Some m \<Rightarrow> m)
         test_metadata)"
    by auto
  have vals: "truthy (category new_test_metadata) = False"
    "truthy (sub_category new_test_metadata) = False"
    "truthy (primary_color new_test_metadata) = False"
    "category test_metadata = Some ''top''" "sub_category test_metadata = Some ''t-shirt''"
    "primary_color test_metadata = Some ''navy blue''"
    "estimated_season new_test_metadata = Some ''summer''"
    "or_empty (secondary_colors test_metadata) = [''white'']"
    "or_empty (secondary_colors new_test_metadata) = [''white'', ''red'']"
    "or_empty (vibe_tags test_metadata) = [''casual'']"
    "or_empty (vibe_tags new_test_metadata) = [''casual'', ''minimalist'']"
    by (simp_all add: truthy_def new_test_metadata_def test_metadata_def or_empty_def)
  from f have scal: "category (mergedMetadata test_metadata new_test_metadata) = Some ''top''"
     "sub_category (mergedMetadata test_metadata new_test_metadata) = Some ''t-shirt''"
     "primary_color (mergedMetadata test_metadata new_test_metadata) = Some ''navy blue''"
     "estimated_season (mergedMetadata test_metadata new_test_metadata) = Some ''summer''"
    by (simp_all add: vals)
  from f obtain colors tags where
    c1: "secondary_colors (mergedMetadata test_metadata new_test_metadata) = Some colors"
    and c2: "set colors = set (or_empty (secondary_colors test_metadata))
                          \<union> set (or_empty (secondary_colors new_test_metadata))"
    and t1: "vibe_tags (mergedMetadata test_metadata new_test_metadata) = Some tags"
    and t2: "set tags = set (or_empty (vibe_tags test_metadata))
                          \<union> set (or_empty (vibe_tags new_test_metadata))"
    by blast
  from c2 t2 have "set colors = {''white'', ''red''}" "set tags = {''casual'', ''minimalist''}"
    unfolding vals by auto
  with c1 t1 have sets:
    "set (or_empty (secondary_colors (mergedMetadata test_metadata new_test_metadata)))
       = {''white'', ''red''}"
    "set (or_empty (vibe_tags (mergedMetadata test_metadata new_test_metadata)))
       = {''casual'', ''minimalist''}"
    by (simp_all add: or_empty_def)
  from run link scal sets show ?thesis by blast
qed

text \<open>
  C9. Every row has a non-empty primary image reference after \<open>processClothingItems\<close> when
  every row had one before and no candidate with an empty image URL can be fetched. The
  create path appends one row whose primary is the image URL of the candidate and whose
  variants are empty; the merge path leaves the primary of the row it read unchanged.
\<close>

theorem primary_always_set:
  "((\<forall>r \<in> set db. primary_set r)
      \<longrightarrow> (\<forall>item \<in> set items. imageUrl item \<noteq> [] \<or> fetch (images env) [] = None)
      \<longrightarrow> (\<forall>r \<in> set (snd (processClothingItems env userId items db)). primary_set r))
   \<and> (try_item env userId item db = (Inr r, db') \<longrightarrow> \<not> merged r
      \<longrightarrow> (\<exists>newItem. db' = db @ [newItem] \<and> item_id newItem = result_id r
            \<and> image_urls newItem = Some \<lparr>primary = imageUrl item, variants = Some []\<rparr>))
   \<and> (mergeItem env db existingItemId newImageUrl userId = (Inr updatedItem, db'')
      \<longrightarrow> (\<exists>e \<in> set db. item_id e = existingItemId \<and> item_id updatedItem = existingItemId
            \<and> updatedItem \<in> set db''
            \<and> (\<forall>u. image_urls e = Some u
                  \<longrightarrow> (\<exists>u'. image_urls updatedItem = Some u' \<and> primary u' = primary u))))"
proof (intro conjI impI)
  assume inv: "\<forall>r \<in> set db. primary_set r"
    and urls: "\<forall>item \<in> set items. imageUrl item \<noteq> [] \<or> fetch (images env) [] = None"
  show "\<forall>r \<in> set (snd (processClothingItems env userId items db)). primary_set r"
  proof (cases "createServiceClient env")
    case None
    from outcomes_inv[OF inv urls] show ?thesis
      by (simp add: processClothingItems_unfold[OF None])
  next
    case (Some e)
    with inv show ?thesis by (simp add: processClothingItems_def)
  qed
next
  assume run: "try_item env userId item db = (Inr r, db')" and nm: "\<not> merged r"
  show "\<exists>newItem. db' = db @ [newItem] \<and> item_id newItem = result_id r
            \<and> image_urls newItem = Some \<lparr>primary = imageUrl item, variants = Some []\<rparr>"
  proof (cases "generatePerceptualHash (images env) (imageUrl item) (boundingBox item)")
    case (Inl e)
    with run show ?thesis by (simp add: try_item_def)
  next
    case (Inr h)
    show ?thesis
    proof (cases "single (filter (\<lambda>r. user_id r = userId \<and> perceptual_hash r = Some h) db)")
      case None
      with Inr run show ?thesis
        by (auto simp: try_item_def Let_def split: sum.splits option.splits)
    next
      case (Some exactMatch)
      with Inr run nm show ?thesis
        by (auto simp: try_item_def split: prod.splits sum.splits)
    qed
  qed
next
  assume "mergeItem env db existingItemId newImageUrl userId = (Inr updatedItem, db'')"
  from mergeItem_success[OF this] obtain e m where
    e: "e \<in> set db" "item_id e = existingItemId"
    "updatedItem = merge_patch env e newImageUrl m e" "updatedItem \<in> set db''"
    by blast
  have "\<forall>u. image_urls e = Some u
          \<longrightarrow> (\<exists>u'. image_urls (merge_patch env e newImageUrl m e) = Some u'
                \<and> primary u' = primary u)"
    by (simp add: merge_patch_def merged_image_urls_primary)
  with e show "\<exists>e \<in> set db. item_id e = existingItemId \<and> item_id updatedItem = existingItemId
            \<and> updatedItem \<in> set db''
            \<and> (\<forall>u. image_urls e = Some u
                  \<longrightarrow> (\<exists>u'. image_urls updatedItem = Some u' \<and> primary u' = primary u))"
    by (auto simp: merge_patch_id)
qed

text \<open>The same image processed twice from an empty table: a create, then a merge.\<close>

theorem primary_always_set_witness:
  "snd (processClothingItems test_env ''user'' [test_input ''u'', test_input ''u''] [])
     = [test_row [''u'']]
   \<and> primary_set (test_row [''u''])
   \<and> try_item test_env ''user'' (test_input ''u'') []
     = (Inr \<lparr>result_id = ''item-0'', merged = False, existing_item_id = None,
              imageAdded = None\<rparr>, [test_row []])
   \<and> image_urls (test_row []) = Some \<lparr>primary = imageUrl (test_input ''u''), variants = Some []\<rparr>
   \<and> mergeItem test_env [test_row []] ''item-0'' ''u'' ''user''
     = (Inr (test_row [''u'']), [test_row [''u'']])
   \<and> map_option primary (image_urls (test_row [''u''])) = map_option primary (image_urls (test_row []))"
proof -
  let ?items = "[test_input ''u'', test_input ''u'']"
  let ?r = "\<lparr>result_id = ''item-0'', merged = False, existing_item_id = None, imageAdded = None\<rparr>"
  note t = primary_always_set[where env = test_env and db = "[]" and items = ?items
      and userId = "''user''" and item = "test_input ''u''" and r = ?r and db' = "[test_row []]"]
  note m = primary_always_set[where env = test_env and db = "[test_row []]"
      and existingItemId = "''item-0''" and newImageUrl = "''u''" and userId = "''user''"
      and updatedItem = "test_row [''u'']" and db'' = "[test_row [''u'']]"]
  have run: "snd (processClothingItems test_env ''user'' ?items []) = [test_row [''u'']]"
    using try_item_test_merge[of "[]"]
    by (simp add: processClothingItems_unfold[OF test_env_client] try_item_test_create')
  have urls: "\<forall>item \<in> set ?items. imageUrl item \<noteq> [] \<or> fetch (images test_env) [] = None"
    by (simp add: test_input_def)
  from t urls have "\<forall>r \<in> set (snd (processClothingItems test_env ''user'' ?items [])). primary_set r"
    by simp
  with run have inv: "primary_set (test_row [''u''])" by simp
  have create: "try_item test_env ''user'' (test_input ''u'') [] = (Inr ?r, [test_row []])"
    by (rule try_item_test_create')
  with t have "\<exists>newItem. [test_row []] = [] @ [newItem]
      \<and> image_urls newItem = Some \<lparr>primary = imageUrl (test_input ''u''), variants = Some []\<rparr>"
    by simp
  then have new: "image_urls (test_row [])
      = Some \<lparr>primary = imageUrl (test_input ''u''), variants = Some []\<rparr>"
    by simp
  have merge: "mergeItem test_env [test_row []] ''item-0'' ''u'' ''user''
     = (Inr (test_row [''u'']), [test_row [''u'']])"
    using mergeItem_test[of "[]"] by simp
  with m have "\<forall>u. image_urls (test_row []) = Some u
      \<longrightarrow> (\<exists>u'. image_urls (test_row [''u'']) = Some u' \<and> primary u' = primary u)"
    by simp
  with new have keep: "map_option primary (image_urls (test_row [''u'']))
      = map_option primary (image_urls (test_row []))"
    by auto
  from run inv create new merge keep show ?thesis by blast
qed

end
